theory Spec2Isabelle
  imports Main
begin

section \<open>Errors and results of the Go code\<close>

text \<open>
  The package-level error variables that \<^verbatim>\<open>s3.go\<close> returns or wraps. They are declared
  in another file of package \<^verbatim>\<open>storage\<close>; a caller recognises one by identity
  (\<^verbatim>\<open>errors.Is\<close>), not by its text.
\<close>

datatype sentinel =
    ErrModuleNotFound
  | ErrModuleAlreadyExists
  | ErrModuleUploadFailed
  | ErrModuleListFailed
  | ErrProviderListFailed
  | ErrProviderAlreadyExists

text \<open>
  Error values, by the way they are built:
  \<^item> \<open>Sentinel v\<close>: one of the package's error variables;
  \<^item> \<open>ErrorString m\<close>: \<^verbatim>\<open>errors.New(m)\<close> or \<^verbatim>\<open>fmt.Errorf\<close> without \<^verbatim>\<open>%w\<close>, a fresh value
    that carries nothing but its text;
  \<^item> \<open>ResponseError c\<close>: an \<^verbatim>\<open>*awshttp.ResponseError\<close> whose HTTP status code is \<open>c\<close>;
  \<^item> \<open>OpaqueError m\<close>: any other error value made outside this package (network, credentials);
  \<^item> \<open>ForeignWrap m e\<close>: an error of the SDK that wraps \<open>e\<close> (it has an \<^verbatim>\<open>Unwrap\<close> method);
  \<^item> \<open>Wrap e m\<close>: \<^verbatim>\<open>errors.Wrap(e, m)\<close> and \<^verbatim>\<open>errors.Wrapf(e, ...)\<close> with the text \<open>m\<close>;
  \<^item> \<open>WrapText e e'\<close>: \<^verbatim>\<open>errors.Wrap(e, e'.Error())\<close>: the message is the text of \<open>e'\<close>,
    which is not part of the chain of causes;
  \<^item> \<open>ErrorfW m e\<close>: \<^verbatim>\<open>fmt.Errorf(m + "%w", e)\<close>.
\<close>

datatype err =
    Sentinel sentinel
  | ErrorString string
  | ResponseError nat
  | OpaqueError string
  | ForeignWrap string err
  | Wrap err string
  | WrapText err err
  | ErrorfW string err

text \<open>
  \<^verbatim>\<open>errors.As(err, &responseError)\<close> followed by \<^verbatim>\<open>HTTPStatusCode()\<close>: the status code of
  the first \<^verbatim>\<open>*awshttp.ResponseError\<close> on the chain of causes, if there is one.
\<close>

fun as_ResponseError :: "err \<Rightarrow> nat option" where
  "as_ResponseError (ResponseError c) = Some c"
| "as_ResponseError (ForeignWrap m e) = as_ResponseError e"
| "as_ResponseError (Wrap e m) = as_ResponseError e"
| "as_ResponseError (WrapText e e') = as_ResponseError e"
| "as_ResponseError (ErrorfW m e) = as_ResponseError e"
| "as_ResponseError (Sentinel v) = None"
| "as_ResponseError (ErrorString m) = None"
| "as_ResponseError (OpaqueError m) = None"

text \<open>
  The error variable of this package that a caller can find on the chain of causes with
  \<^verbatim>\<open>errors.Is\<close>; \<open>None\<close> when the value can only be told apart by its text.
\<close>

fun sentinel_of :: "err \<Rightarrow> sentinel option" where
  "sentinel_of (Sentinel v) = Some v"
| "sentinel_of (ForeignWrap m e) = sentinel_of e"
| "sentinel_of (Wrap e m) = sentinel_of e"
| "sentinel_of (WrapText e e') = sentinel_of e"
| "sentinel_of (ErrorfW m e) = sentinel_of e"
| "sentinel_of (ErrorString m) = None"
| "sentinel_of (ResponseError c) = None"
| "sentinel_of (OpaqueError m) = None"

text \<open>
  What a call of a Go function with the result list \<^verbatim>\<open>(T, error)\<close> does: it panics, or it
  returns a value together with an error that may be \<^verbatim>\<open>nil\<close>.
\<close>

datatype 'a go = Panic | Ret 'a "err option"

section \<open>Data\<close>

text \<open>\<^verbatim>\<open>core.Module\<close>, with the fields \<^verbatim>\<open>s3.go\<close> sets.\<close>

record Module =
  Namespace :: string
  Name :: string
  Provider :: string
  Version :: string
  DownloadURL :: string

definition emptyModule :: Module where
  "emptyModule = \<lparr>Namespace = [], Name = [], Provider = [], Version = [], DownloadURL = []\<rparr>"

text \<open>
  \<^verbatim>\<open>core.SigningKeys\<close> (a list of public keys), \<^verbatim>\<open>core.ProviderVersion\<close> (a version with
  its platforms) and \<^verbatim>\<open>core.Provider\<close>, with the fields \<^verbatim>\<open>GetProvider\<close> sets. The field
  names of \<^verbatim>\<open>core.Provider\<close> carry the prefix \<open>p\<close>, since several are fields of
  \<^verbatim>\<open>core.Module\<close> too.
\<close>

type_synonym SigningKeys = "string list"

type_synonym ProviderVersion = "string \<times> (string \<times> string) list"

record Provider =
  pNamespace :: string
  pName :: string
  pVersion :: string
  pOS :: string
  pArch :: string
  pShasum :: string
  pFilename :: string
  pDownloadURL :: string
  pSHASumsURL :: string
  pSHASumsSignatureURL :: string
  pSigningKeys :: SigningKeys

definition emptyProvider :: Provider where
  "emptyProvider = \<lparr>pNamespace = [], pName = [], pVersion = [], pOS = [], pArch = [],
     pShasum = [], pFilename = [], pDownloadURL = [], pSHASumsURL = [],
     pSHASumsSignatureURL = [], pSigningKeys = []\<rparr>"

section \<open>The storage and what it calls\<close>

text \<open>
  \<^verbatim>\<open>S3Storage\<close>. The four clients are interfaces of the AWS SDK (\<^verbatim>\<open>s3ClientAPI\<close>,
  \<^verbatim>\<open>s3UploaderAPI\<close>, \<^verbatim>\<open>s3DownloaderAPI\<close> and the presign client); each method is a
  function of the state \<open>'w\<close> of the object store, and the two that write return the new
  state:
  \<^item> \<open>HeadObject w bucket key\<close> is the error of the call (\<open>None\<close> for \<^verbatim>\<open>nil\<close>);
  \<^item> \<open>ListObjectsV2 w bucket prefix\<close> is the sequence of answers the paginator gives, one
    per call of \<^verbatim>\<open>NextPage\<close>: an error, or the keys of the page's \<^verbatim>\<open>Contents\<close> (every
    entry has a key); \<^verbatim>\<open>HasMorePages\<close> is false when the sequence is used up. The sequence
    is finite and fixed when the paginator is made: a store that hands out continuation
    tokens for ever is not modelled, and a page does not show what was copied after the
    loop began;
  \<^item> \<open>CopyObject w bucket copySource key\<close> and \<open>Upload w bucket key body\<close> give the error
    and the new state;
  \<^item> \<open>PresignGetObject w bucket key expiry\<close> gives the URL of the result (\<open>None\<close> when the
    result pointer is \<^verbatim>\<open>nil\<close>) and the error;
  \<^item> \<open>Download w bucket key\<close> gives the bytes written to the buffer and the error.
  The fields \<^verbatim>\<open>bucketRegion\<close>, \<^verbatim>\<open>bucketEndpoint\<close> and \<^verbatim>\<open>forcePathStyle\<close> are read by the
  constructor only and are left out.
\<close>

record 'w S3Storage =
  HeadObject :: "'w \<Rightarrow> string \<Rightarrow> string \<Rightarrow> err option"
  ListObjectsV2 :: "'w \<Rightarrow> string \<Rightarrow> string \<Rightarrow> (err + string list) list"
  CopyObject :: "'w \<Rightarrow> string \<Rightarrow> string \<Rightarrow> string \<Rightarrow> err option \<times> 'w"
  PresignGetObject :: "'w \<Rightarrow> string \<Rightarrow> string \<Rightarrow> int \<Rightarrow> string option \<times> err option"
  Download :: "'w \<Rightarrow> string \<Rightarrow> string \<Rightarrow> string \<times> err option"
  Upload :: "'w \<Rightarrow> string \<Rightarrow> string \<Rightarrow> string \<Rightarrow> err option \<times> 'w"
  bucket :: string
  bucketPrefix :: string
  moduleArchiveFormat :: string
  signedURLExpiry :: int

text \<open>
  The functions and constants \<^verbatim>\<open>s3.go\<close> calls that are defined elsewhere: in other files of
  package \<^verbatim>\<open>storage\<close>, in package \<^verbatim>\<open>core\<close> and in Go's standard library. They are
  parameters of every operation below. A function with the result list \<^verbatim>\<open>(T, error)\<close> is a
  pair; a result pointer is an option. The provider collection is given by \<open>Collection_List\<close>:
  what \<^verbatim>\<open>List()\<close> returns after \<^verbatim>\<open>NewCollection()\<close> and one \<^verbatim>\<open>Add\<close> for each provider
  of the list, in order.
\<close>

record helpers =
  modulePath :: "string \<Rightarrow> string \<Rightarrow> string \<Rightarrow> string \<Rightarrow> string \<Rightarrow> string \<Rightarrow> string"
  modulePathPrefix :: "string \<Rightarrow> string \<Rightarrow> string \<Rightarrow> string \<Rightarrow> string"
  moduleFromObject :: "string \<Rightarrow> string \<Rightarrow> Module option \<times> err option"
  DefaultModuleArchiveFormat :: string
  internalModuleType :: string
  internalProviderType :: string
  isUnmigratedModule :: "string \<Rightarrow> string \<Rightarrow> bool"
  migrationTargetPath :: "string \<Rightarrow> string \<Rightarrow> string \<Rightarrow> string"
  providerMigrationTargetPath :: "string \<Rightarrow> string \<Rightarrow> string \<times> err option"
  internalProviderPath ::
    "string \<Rightarrow> string \<Rightarrow> string \<Rightarrow> string \<Rightarrow> string \<Rightarrow> string
      \<Rightarrow> (string \<times> string \<times> string) \<times> err option"
  providerStoragePrefix ::
    "string \<Rightarrow> string \<Rightarrow> string \<Rightarrow> string \<Rightarrow> string \<Rightarrow> string \<times> err option"
  signingKeysPath :: "string \<Rightarrow> string \<Rightarrow> string"
  readSHASums :: "string \<Rightarrow> string \<Rightarrow> string \<times> err option"
  unmarshalSigningKeys :: "string \<Rightarrow> SigningKeys option \<times> err option"
  NewProviderFromArchive :: "string \<Rightarrow> Provider \<times> err option"
  Collection_List :: "Provider list \<Rightarrow> ProviderVersion list"
  path_Join :: "string list \<Rightarrow> string"
  path_Base :: "string \<Rightarrow> string"
  filepath_Join :: "string list \<Rightarrow> string"
  url_PathEscape :: "string \<Rightarrow> string"

section \<open>The private helpers of \<^verbatim>\<open>s3.go\<close>\<close>

text \<open>
  \<^verbatim>\<open>presignedURL\<close> returns \<^verbatim>\<open>presignResult.URL, err\<close> without looking at \<^verbatim>\<open>err\<close> first: the
  field is read through the result pointer, which panics when the pointer is \<^verbatim>\<open>nil\<close>.
\<close>

definition presignedURL :: "'w S3Storage \<Rightarrow> 'w \<Rightarrow> string \<Rightarrow> string go" where
  "presignedURL s w key =
     (case PresignGetObject s w (bucket s) key (signedURLExpiry s) of
        (None, err) \<Rightarrow> Panic
      | (Some url, err) \<Rightarrow> Ret url err)"

definition objectExists :: "'w S3Storage \<Rightarrow> 'w \<Rightarrow> string \<Rightarrow> bool \<times> err option" where
  "objectExists s w key =
     (case HeadObject s w (bucket s) key of
        Some err \<Rightarrow>
          (if as_ResponseError err = Some 404 then (False, None) else (False, Some err))
      | None \<Rightarrow> (True, None))"

definition download :: "'w S3Storage \<Rightarrow> 'w \<Rightarrow> string \<Rightarrow> string \<times> err option" where
  "download s w path =
     (case Download s w (bucket s) path of
        (buf, Some err) \<Rightarrow> ([], Some (Wrap err (''failed to download: '' @ path)))
      | (buf, None) \<Rightarrow> (buf, None))"

section \<open>Modules\<close>

definition GetModule ::
  "helpers \<Rightarrow> 'w S3Storage \<Rightarrow> 'w \<Rightarrow> string \<Rightarrow> string \<Rightarrow> string \<Rightarrow> string \<Rightarrow> Module go" where
  "GetModule h s w namespace name provider version =
     (let key = modulePath h (bucketPrefix s) namespace name provider version
                  (moduleArchiveFormat s)
      in case objectExists s w key of
           (exists, Some err) \<Rightarrow> Ret emptyModule (Some err)
         | (exists, None) \<Rightarrow>
             if \<not> exists then Ret emptyModule (Some (Sentinel ErrModuleNotFound))
             else (case presignedURL s w key of
                     Panic \<Rightarrow> Panic
                   | Ret presigned (Some err) \<Rightarrow> Ret emptyModule (Some err)
                   | Ret presigned None \<Rightarrow>
                       Ret \<lparr>Namespace = namespace, Name = name, Provider = provider,
                            Version = version, DownloadURL = presigned\<rparr> None))"

text \<open>
  The inner loop of \<^verbatim>\<open>ListModuleVersions\<close> over the keys of one page. \<open>Inl r\<close> is a
  \<^verbatim>\<open>return\<close> (or a panic) inside the loop, \<open>Inr modules\<close> the slice after the last key.
  \<^verbatim>\<open>moduleFromObject\<close> returns a pointer, which the loop reads without a check.
\<close>

fun moduleObjects ::
  "helpers \<Rightarrow> 'w S3Storage \<Rightarrow> 'w \<Rightarrow> string list \<Rightarrow> Module list \<Rightarrow> Module list go + Module list" where
  "moduleObjects h s w [] modules = Inr modules"
| "moduleObjects h s w (key # objs) modules =
     (case moduleFromObject h key (moduleArchiveFormat s) of
        (m, Some err) \<Rightarrow> moduleObjects h s w objs modules
      | (None, None) \<Rightarrow> Inl Panic
      | (Some m, None) \<Rightarrow>
          (case presignedURL s w
                  (modulePath h (bucketPrefix s) (Namespace m) (Name m) (Provider m) (Version m)
                     (moduleArchiveFormat s)) of
             Panic \<Rightarrow> Inl Panic
           | Ret url (Some err) \<Rightarrow> Inl (Ret [] (Some err))
           | Ret url None \<Rightarrow>
               moduleObjects h s w objs (modules @ [m\<lparr>DownloadURL := url\<rparr>])))"

fun modulePages ::
  "helpers \<Rightarrow> 'w S3Storage \<Rightarrow> 'w \<Rightarrow> (err + string list) list \<Rightarrow> Module list \<Rightarrow> Module list go" where
  "modulePages h s w [] modules = Ret modules None"
| "modulePages h s w (page # pages) modules =
     (case page of
        Inl err \<Rightarrow> Ret [] (Some (WrapText (Sentinel ErrModuleListFailed) err))
      | Inr contents \<Rightarrow>
          (case moduleObjects h s w contents modules of
             Inl r \<Rightarrow> r
           | Inr modules' \<Rightarrow> modulePages h s w pages modules'))"

definition ListModuleVersions ::
  "helpers \<Rightarrow> 'w S3Storage \<Rightarrow> 'w \<Rightarrow> string \<Rightarrow> string \<Rightarrow> string \<Rightarrow> Module list go" where
  "ListModuleVersions h s w namespace name provider =
     modulePages h s w
       (ListObjectsV2 s w (bucket s)
          (modulePathPrefix h (bucketPrefix s) namespace name provider)) []"

text \<open>
  \<^verbatim>\<open>UploadModule\<close> returns its result and the state of the object store after the call. The
  key it writes is built with \<^verbatim>\<open>DefaultModuleArchiveFormat\<close>; the two calls of \<^verbatim>\<open>GetModule\<close>
  build theirs with the configured format. The error of a failed upload is
  \<^verbatim>\<open>errors.Wrapf(ErrModuleUploadFailed, err.Error())\<close>: the text of the upload's error is used
  as the format of the message, which the model keeps as the error it comes from.
\<close>

definition UploadModule ::
  "helpers \<Rightarrow> 'w S3Storage \<Rightarrow> 'w \<Rightarrow> string \<Rightarrow> string \<Rightarrow> string \<Rightarrow> string \<Rightarrow> string
     \<Rightarrow> Module go \<times> 'w" where
  "UploadModule h s w namespace name provider version body =
     (if namespace = [] then (Ret emptyModule (Some (ErrorString ''namespace not defined'')), w)
      else if name = [] then (Ret emptyModule (Some (ErrorString ''name not defined'')), w)
      else if provider = [] then (Ret emptyModule (Some (ErrorString ''provider not defined'')), w)
      else if version = [] then (Ret emptyModule (Some (ErrorString ''version not defined'')), w)
      else
        let key = modulePath h (bucketPrefix s) namespace name provider version
                    (DefaultModuleArchiveFormat h)
        in case GetModule h s w namespace name provider version of
             Panic \<Rightarrow> (Panic, w)
           | Ret m None \<Rightarrow> (Ret emptyModule (Some (Wrap (Sentinel ErrModuleAlreadyExists) key)), w)
           | Ret m (Some e) \<Rightarrow>
               (case Upload s w (bucket s) key body of
                  (Some err, w') \<Rightarrow>
                    (Ret emptyModule (Some (WrapText (Sentinel ErrModuleUploadFailed) err)), w')
                | (None, w') \<Rightarrow> (GetModule h s w' namespace name provider version, w')))"

section \<open>Layout migration\<close>

text \<open>
  The state a migration threads through its loops: the object store, the lines given to the
  logger (each the list of keys and values of one \<^verbatim>\<open>logger.Log\<close> call; the error \<^verbatim>\<open>Log\<close>
  returns is dropped by the code), and the \<^verbatim>\<open>CopyObject\<close> requests issued so far, each as
  (bucket, copy source, target key).
\<close>

type_synonym logline = "(string \<times> string) list"

record 'w migration =
  store :: 'w
  logged :: "logline list"
  copies :: "(string \<times> string \<times> string) list"

definition Log :: "logline \<Rightarrow> 'w migration \<Rightarrow> 'w migration" where
  "Log line st = st\<lparr>logged := logged st @ [line]\<rparr>"

text \<open>
  The loops over the keys of one page. The result \<open>Some err\<close> is \<^verbatim>\<open>return err\<close> inside the
  loop; \<open>None\<close> means the loop ran to its end.
\<close>

fun migrateModuleObjects ::
  "helpers \<Rightarrow> 'w S3Storage \<Rightarrow> bool \<Rightarrow> string list \<Rightarrow> 'w migration \<Rightarrow> err option \<times> 'w migration" where
  "migrateModuleObjects h s dryRun [] st = (None, st)"
| "migrateModuleObjects h s dryRun (key # objs) st =
     (if \<not> isUnmigratedModule h (bucketPrefix s) key
      then migrateModuleObjects h s dryRun objs
             (Log [(''message'', ''skipping...''), (''key'', key)] st)
      else
        let targetKey = migrationTargetPath h (bucketPrefix s) (moduleArchiveFormat s) key
        in if dryRun
           then migrateModuleObjects h s dryRun objs
                  (Log [(''message'', ''skipping due to dry-run''), (''source'', key),
                        (''target'', targetKey)] st)
           else
             let copySource = url_PathEscape h (path_Join h [bucket s, key])
             in case CopyObject s (store st) (bucket s) copySource targetKey of
                  (Some err, w') \<Rightarrow>
                    (Some err,
                     st\<lparr>store := w', copies := copies st @ [(bucket s, copySource, targetKey)]\<rparr>)
                | (None, w') \<Rightarrow>
                    migrateModuleObjects h s dryRun objs
                      (Log [(''message'', ''copied module''), (''source'', key),
                            (''target'', targetKey)]
                         (st\<lparr>store := w',
                             copies := copies st @ [(bucket s, copySource, targetKey)]\<rparr>)))"

fun migrateModulePages ::
  "helpers \<Rightarrow> 'w S3Storage \<Rightarrow> bool \<Rightarrow> (err + string list) list \<Rightarrow> 'w migration
     \<Rightarrow> err option \<times> 'w migration" where
  "migrateModulePages h s dryRun [] st = (None, st)"
| "migrateModulePages h s dryRun (page # pages) st =
     (case page of
        Inl err \<Rightarrow> (Some (ErrorfW ''failed to page: '' err), st)
      | Inr contents \<Rightarrow>
          (case migrateModuleObjects h s dryRun contents st of
             (Some err, st') \<Rightarrow> (Some err, st')
           | (None, st') \<Rightarrow> migrateModulePages h s dryRun pages st'))"

definition MigrateModules ::
  "helpers \<Rightarrow> 'w S3Storage \<Rightarrow> 'w \<Rightarrow> logline list \<Rightarrow> bool \<Rightarrow> err option \<times> 'w migration" where
  "MigrateModules h s w logger dryRun =
     migrateModulePages h s dryRun
       (ListObjectsV2 s w (bucket s) (path_Join h [bucketPrefix s, internalModuleType h]))
       \<lparr>store = w, logged = logger, copies = []\<rparr>"

fun migrateProviderObjects ::
  "helpers \<Rightarrow> 'w S3Storage \<Rightarrow> bool \<Rightarrow> string list \<Rightarrow> 'w migration \<Rightarrow> err option \<times> 'w migration" where
  "migrateProviderObjects h s dryRun [] st = (None, st)"
| "migrateProviderObjects h s dryRun (key # objs) st =
     (case providerMigrationTargetPath h (bucketPrefix s) key of
        (directory, Some err) \<Rightarrow> (Some err, st)
      | (directory, None) \<Rightarrow>
          let targetKey = path_Join h [directory, path_Base h key]
          in if dryRun
             then migrateProviderObjects h s dryRun objs
                    (Log [(''message'', ''skipping due to dry-run''), (''source'', key),
                          (''target'', targetKey)] st)
             else
               let copySource = url_PathEscape h (path_Join h [bucket s, key])
               in (case CopyObject s (store st) (bucket s) copySource targetKey of
                     (Some err, w') \<Rightarrow>
                       (Some err,
                        st\<lparr>store := w', copies := copies st @ [(bucket s, copySource, targetKey)]\<rparr>)
                   | (None, w') \<Rightarrow>
                       migrateProviderObjects h s dryRun objs
                         (Log [(''message'', ''copied module''), (''source'', key),
                               (''target'', targetKey)]
                            (st\<lparr>store := w',
                                copies := copies st @ [(bucket s, copySource, targetKey)]\<rparr>))))"

fun migrateProviderPages ::
  "helpers \<Rightarrow> 'w S3Storage \<Rightarrow> bool \<Rightarrow> (err + string list) list \<Rightarrow> 'w migration
     \<Rightarrow> err option \<times> 'w migration" where
  "migrateProviderPages h s dryRun [] st = (None, st)"
| "migrateProviderPages h s dryRun (page # pages) st =
     (case page of
        Inl err \<Rightarrow> (Some (ErrorfW ''failed to page: '' err), st)
      | Inr contents \<Rightarrow>
          (case migrateProviderObjects h s dryRun contents st of
             (Some err, st') \<Rightarrow> (Some err, st')
           | (None, st') \<Rightarrow> migrateProviderPages h s dryRun pages st'))"

definition MigrateProviders ::
  "helpers \<Rightarrow> 'w S3Storage \<Rightarrow> 'w \<Rightarrow> logline list \<Rightarrow> bool \<Rightarrow> err option \<times> 'w migration" where
  "MigrateProviders h s w logger dryRun =
     migrateProviderPages h s dryRun
       (ListObjectsV2 s w (bucket s) (path_Join h [bucketPrefix s, internalProviderType h]))
       \<lparr>store = w, logged = logger, copies = []\<rparr>"

section \<open>Providers\<close>

definition SigningKeys ::
  "helpers \<Rightarrow> 'w S3Storage \<Rightarrow> 'w \<Rightarrow> string \<Rightarrow> SigningKeys option \<times> err option" where
  "SigningKeys h s w namespace =
     (if namespace = [] then (None, Some (ErrorString ''namespace argument is empty''))
      else
        case download s w (signingKeysPath h (bucketPrefix s) namespace) of
          (signingKeysRaw, Some err) \<Rightarrow>
            (None,
             Some (ErrorfW (''failed to download signing_keys.json for namespace '' @ namespace
                            @ '': '') err))
        | (signingKeysRaw, None) \<Rightarrow> unmarshalSigningKeys h signingKeysRaw)"

text \<open>
  \<^verbatim>\<open>GetProvider\<close>. The last step reads \<^verbatim>\<open>*signingKeys\<close> through the pointer
  \<^verbatim>\<open>SigningKeys\<close> returned.
\<close>

definition GetProvider ::
  "helpers \<Rightarrow> 'w S3Storage \<Rightarrow> 'w \<Rightarrow> string \<Rightarrow> string \<Rightarrow> string \<Rightarrow> string \<Rightarrow> string
     \<Rightarrow> Provider go" where
  "GetProvider h s w namespace name version os arch =
     (case internalProviderPath h (bucketPrefix s) namespace name version os arch of
        (paths, Some err) \<Rightarrow> Ret emptyProvider (Some err)
      | ((archivePath, shasumPath, shasumSigPath), None) \<Rightarrow>
     (case presignedURL s w archivePath of
        Panic \<Rightarrow> Panic
      | Ret zipURL (Some err) \<Rightarrow> Ret emptyProvider (Some err)
      | Ret zipURL None \<Rightarrow>
     (case presignedURL s w shasumPath of
        Panic \<Rightarrow> Panic
      | Ret shasumsURL (Some err) \<Rightarrow> Ret emptyProvider (Some (Wrap err shasumPath))
      | Ret shasumsURL None \<Rightarrow>
     (case presignedURL s w shasumSigPath of
        Panic \<Rightarrow> Panic
      | Ret signatureURL (Some err) \<Rightarrow> Ret emptyProvider (Some err)
      | Ret signatureURL None \<Rightarrow>
     (case download s w shasumPath of
        (shasumBytes, Some err) \<Rightarrow> Ret emptyProvider (Some err)
      | (shasumBytes, None) \<Rightarrow>
     (case readSHASums h shasumBytes (path_Base h archivePath) of
        (shasum, Some err) \<Rightarrow> Ret emptyProvider (Some err)
      | (shasum, None) \<Rightarrow>
     (case SigningKeys h s w namespace of
        (signingKeys, Some err) \<Rightarrow> Ret emptyProvider (Some err)
      | (None, None) \<Rightarrow> Panic
      | (Some signingKeys, None) \<Rightarrow>
          Ret \<lparr>pNamespace = namespace, pName = name, pVersion = version, pOS = os,
               pArch = arch, pShasum = shasum, pFilename = path_Base h archivePath,
               pDownloadURL = zipURL, pSHASumsURL = shasumsURL,
               pSHASumsSignatureURL = signatureURL, pSigningKeys = signingKeys\<rparr> None)))))))"

text \<open>
  The loops of \<^verbatim>\<open>ListProviderVersions\<close>: \<open>collection\<close> is the list of the providers added
  so far.
\<close>

fun providerObjects :: "helpers \<Rightarrow> string list \<Rightarrow> Provider list \<Rightarrow> Provider list" where
  "providerObjects h [] collection = collection"
| "providerObjects h (key # objs) collection =
     (case NewProviderFromArchive h key of
        (provider, Some err) \<Rightarrow> providerObjects h objs collection
      | (provider, None) \<Rightarrow> providerObjects h objs (collection @ [provider]))"

fun providerPages ::
  "helpers \<Rightarrow> (err + string list) list \<Rightarrow> Provider list \<Rightarrow> Provider list \<times> err option" where
  "providerPages h [] collection = (collection, None)"
| "providerPages h (page # pages) collection =
     (case page of
        Inl err \<Rightarrow> ([], Some (WrapText (Sentinel ErrProviderListFailed) err))
      | Inr contents \<Rightarrow> providerPages h pages (providerObjects h contents collection))"

definition ListProviderVersions ::
  "helpers \<Rightarrow> 'w S3Storage \<Rightarrow> 'w \<Rightarrow> string \<Rightarrow> string \<Rightarrow> ProviderVersion list \<times> err option" where
  "ListProviderVersions h s w namespace name =
     (case providerStoragePrefix h (bucketPrefix s) (internalProviderType h) [] namespace name of
        (prefix, Some err) \<Rightarrow> ([], Some err)
      | (prefix, None) \<Rightarrow>
          (case providerPages h (ListObjectsV2 s w (bucket s) (prefix @ ''/'')) [] of
             (collection, Some err) \<Rightarrow> ([], Some err)
           | (collection, None) \<Rightarrow>
               let result = Collection_List h collection
               in if length result = 0
                  then ([], Some (ErrorString (''no provider versions found for '' @ namespace
                                               @ ''/'' @ name)))
                  else (result, None)))"

definition UploadProviderReleaseFiles ::
  "helpers \<Rightarrow> 'w S3Storage \<Rightarrow> 'w \<Rightarrow> string \<Rightarrow> string \<Rightarrow> string \<Rightarrow> string \<Rightarrow> err option \<times> 'w" where
  "UploadProviderReleaseFiles h s w namespace name filename file =
     (if namespace = [] then (Some (ErrorString ''namespace argument is empty''), w)
      else if name = [] then (Some (ErrorString ''name argument is empty''), w)
      else if filename = [] then (Some (ErrorString ''name argument is empty''), w)
      else
        case providerStoragePrefix h (bucketPrefix s) (internalProviderType h) [] namespace name of
          (prefix, Some err) \<Rightarrow> (Some err, w)
        | (prefix, None) \<Rightarrow>
            let key = filepath_Join h [prefix, filename]
            in (case objectExists s w key of
                  (exists, Some err) \<Rightarrow> (Some err, w)
                | (exists, None) \<Rightarrow>
                    if exists then (Some (Sentinel ErrProviderAlreadyExists), w)
                    else
                      (case Upload s w (bucket s) key file of
                         (Some err, w') \<Rightarrow> (Some (ErrorfW ''failed to upload provider: '' err), w')
                       | (None, w') \<Rightarrow> (None, w'))))"

section \<open>An instance for the examples\<close>

text \<open>
  The examples below run the operations on an object store held in memory and on one
  choice of the functions that \<^verbatim>\<open>s3.go\<close> takes from elsewhere. The theorems are about every
  store and every such choice; the instance only shows that their hypotheses can be met.
\<close>

fun join_slash :: "string list \<Rightarrow> string" where
  "join_slash [] = []"
| "join_slash [x] = x"
| "join_slash (x # y # ys) = x @ ''/'' @ join_slash (y # ys)"

text \<open>
  \<^verbatim>\<open>path.Join\<close> on elements that are clean already (no empty, \<^verbatim>\<open>.\<close> or \<^verbatim>\<open>..\<close> segment):
  empty elements are dropped and the rest joined with a slash. \<^verbatim>\<open>path.Base\<close> on a path that
  does not end in a slash, and \<^verbatim>\<open>url.PathEscape\<close> on a path whose only escaped character is
  the slash.
\<close>

definition path_Join0 :: "string list \<Rightarrow> string" where
  "path_Join0 elems = join_slash (filter (\<lambda>e. e \<noteq> []) elems)"

definition path_Base0 :: "string \<Rightarrow> string" where
  "path_Base0 p = rev (takeWhile (\<lambda>c. c \<noteq> CHR ''/'') (rev p))"

definition url_PathEscape0 :: "string \<Rightarrow> string" where
  "url_PathEscape0 p = concat (map (\<lambda>c. if c = CHR ''/'' then ''%2F'' else [c]) p)"

fun split_on :: "char \<Rightarrow> string \<Rightarrow> string list" where
  "split_on c [] = [[]]"
| "split_on c (x # xs) =
     (if x = c then [] # split_on c xs
      else (case split_on c xs of [] \<Rightarrow> [[x]] | y # ys \<Rightarrow> (x # y) # ys))"

text \<open>
  Modelled from the spec: the object key layout of its section 6, for the functions of
  package \<^verbatim>\<open>storage\<close> that build and parse keys and are not in \<^verbatim>\<open>s3.go\<close>. A module is at
  \<^verbatim>\<open><prefix>/modules/<namespace>/<name>/<provider>/<version>/<name>.<archiveFormat>\<close>.
\<close>

definition modulePathPrefix0 :: "string \<Rightarrow> string \<Rightarrow> string \<Rightarrow> string \<Rightarrow> string" where
  "modulePathPrefix0 prefix namespace name provider =
     path_Join0 [prefix, ''modules'', namespace, name, provider]"

definition modulePath0 ::
  "string \<Rightarrow> string \<Rightarrow> string \<Rightarrow> string \<Rightarrow> string \<Rightarrow> string \<Rightarrow> string" where
  "modulePath0 prefix namespace name provider version archiveFormat =
     path_Join0 [modulePathPrefix0 prefix namespace name provider, version,
                 name @ ''.'' @ archiveFormat]"

text \<open>
  Modelled from the spec: the reverse parser for modules, which splits the key at its
  slashes and checks the number of segments, that none is empty, and the file name.
\<close>

definition moduleFromObject0 :: "string \<Rightarrow> string \<Rightarrow> Module option \<times> err option" where
  "moduleFromObject0 key archiveFormat =
     (case rev (split_on CHR ''/'' key) of
        file # version # provider # name # namespace # kind # rest \<Rightarrow>
          if kind = ''modules'' \<and> namespace \<noteq> [] \<and> name \<noteq> [] \<and> provider \<noteq> []
             \<and> version \<noteq> [] \<and> file = name @ ''.'' @ archiveFormat
          then (Some \<lparr>Namespace = namespace, Name = name, Provider = provider,
                      Version = version, DownloadURL = []\<rparr>, None)
          else (None, Some (ErrorString (''not a module key: '' @ key)))
      | _ \<Rightarrow> (None, Some (ErrorString (''not a module key: '' @ key))))"

text \<open>
  The spec does not give the legacy layout. In the examples a legacy module key is
  \<^verbatim>\<open><prefix>/modules/namespace=<namespace>/name=<name>/provider=<provider>/version=<version>/<file>\<close>
  and a legacy provider key has a first segment \<^verbatim>\<open>namespace=<namespace>\<close> and a second
  \<^verbatim>\<open>name=<name>\<close> after \<^verbatim>\<open><prefix>/providers\<close>; a provider key that is not of this form
  has no target.
\<close>

definition after_eq :: "string \<Rightarrow> string" where
  "after_eq seg = drop 1 (dropWhile (\<lambda>c. c \<noteq> CHR ''='') seg)"

definition isUnmigratedModule0 :: "string \<Rightarrow> string \<Rightarrow> bool" where
  "isUnmigratedModule0 prefix key =
     (let p = path_Join0 [prefix, ''modules''] @ ''/namespace=''
      in take (length p) key = p)"

definition migrationTargetPath0 :: "string \<Rightarrow> string \<Rightarrow> string \<Rightarrow> string" where
  "migrationTargetPath0 prefix archiveFormat sourceKey =
     (case rev (split_on CHR ''/'' sourceKey) of
        file # version # provider # name # namespace # rest \<Rightarrow>
          modulePath0 prefix (after_eq namespace) (after_eq name) (after_eq provider)
            (after_eq version) archiveFormat
      | _ \<Rightarrow> sourceKey)"

definition providerStoragePrefix0 ::
  "string \<Rightarrow> string \<Rightarrow> string \<Rightarrow> string \<Rightarrow> string \<Rightarrow> string \<times> err option" where
  "providerStoragePrefix0 prefix kind hostname namespace name =
     (path_Join0 [prefix, kind, hostname, namespace, name], None)"

definition providerMigrationTargetPath0 :: "string \<Rightarrow> string \<Rightarrow> string \<times> err option" where
  "providerMigrationTargetPath0 prefix key =
     (case rev (split_on CHR ''/'' key) of
        file # name # namespace # rest \<Rightarrow>
          if take 10 namespace = ''namespace='' \<and> take 5 name = ''name=''
          then (path_Join0 [prefix, ''providers'', after_eq namespace, after_eq name], None)
          else ([], Some (ErrorString (''not a legacy provider key: '' @ key)))
      | _ \<Rightarrow> ([], Some (ErrorString (''not a legacy provider key: '' @ key))))"

text \<open>
  Modelled from the spec: the three keys of a provider release,
  \<^verbatim>\<open><prefix>/providers/<namespace>/<name>/terraform-provider-<name>_<version>_<os>_<arch>.zip\<close>
  and the two checksum files that share the version's base name; the key of a namespace's
  signing keys; and the reverse parser of an archive's file name
  \<^verbatim>\<open><binary-name>_<version>_<os>_<arch>.zip\<close>.
\<close>

definition internalProviderPath0 ::
  "string \<Rightarrow> string \<Rightarrow> string \<Rightarrow> string \<Rightarrow> string \<Rightarrow> string
     \<Rightarrow> (string \<times> string \<times> string) \<times> err option" where
  "internalProviderPath0 prefix namespace name version os arch =
     (let dir = path_Join0 [prefix, ''providers'', namespace, name];
          base = ''terraform-provider-'' @ name @ ''_'' @ version
      in ((path_Join0 [dir, base @ ''_'' @ os @ ''_'' @ arch @ ''.zip''],
           path_Join0 [dir, base @ ''_SHA256SUMS''],
           path_Join0 [dir, base @ ''_SHA256SUMS.sig'']), None))"

definition signingKeysPath0 :: "string \<Rightarrow> string \<Rightarrow> string" where
  "signingKeysPath0 prefix namespace =
     path_Join0 [prefix, ''providers'', namespace, ''signing-keys.json'']"

definition NewProviderFromArchive0 :: "string \<Rightarrow> Provider \<times> err option" where
  "NewProviderFromArchive0 key =
     (let file = path_Base0 key; n = length file
      in if 4 \<le> n \<and> drop (n - 4) file = ''.zip''
         then (case split_on CHR ''_'' (take (n - 4) file) of
                 [binary, version, os, arch] \<Rightarrow>
                   (emptyProvider\<lparr>pName := drop (length ''terraform-provider-'') binary,
                                  pVersion := version, pOS := os, pArch := arch,
                                  pFilename := file\<rparr>, None)
               | _ \<Rightarrow> (emptyProvider, Some (ErrorString (''not a provider archive: '' @ key))))
         else (emptyProvider, Some (ErrorString (''not a provider archive: '' @ key))))"

text \<open>
  Modelled from the spec: the provider collection groups the providers by version and
  keeps each platform of a version once. The order of the versions is the order in which
  they were added first; the examples do not depend on it.
\<close>

definition Collection_List0 :: "Provider list \<Rightarrow> ProviderVersion list" where
  "Collection_List0 providers =
     map (\<lambda>v. (v, remdups (map (\<lambda>p. (pOS p, pArch p))
                              (filter (\<lambda>p. pVersion p = v) providers))))
       (remdups (map pVersion providers))"

text \<open>
  The checksum parser and the decoder of the signing keys are reached by no example: the
  instance gives the first digest of the manifest and one key per line.
\<close>

definition readSHASums0 :: "string \<Rightarrow> string \<Rightarrow> string \<times> err option" where
  "readSHASums0 manifest filename = (takeWhile (\<lambda>c. c \<noteq> CHR '' '') manifest, None)"

definition unmarshalSigningKeys0 :: "string \<Rightarrow> SigningKeys option \<times> err option" where
  "unmarshalSigningKeys0 raw = (Some (split_on CHR 0x0A raw), None)"

definition h0 :: helpers where
  "h0 = \<lparr>modulePath = modulePath0, modulePathPrefix = modulePathPrefix0,
          moduleFromObject = moduleFromObject0, DefaultModuleArchiveFormat = ''tar.gz'',
          internalModuleType = ''modules'', internalProviderType = ''providers'',
          isUnmigratedModule = isUnmigratedModule0,
          migrationTargetPath = migrationTargetPath0,
          providerMigrationTargetPath = providerMigrationTargetPath0,
          internalProviderPath = internalProviderPath0,
          providerStoragePrefix = providerStoragePrefix0,
          signingKeysPath = signingKeysPath0, readSHASums = readSHASums0,
          unmarshalSigningKeys = unmarshalSigningKeys0,
          NewProviderFromArchive = NewProviderFromArchive0,
          Collection_List = Collection_List0, path_Join = path_Join0,
          path_Base = path_Base0, filepath_Join = path_Join0,
          url_PathEscape = url_PathEscape0\<rparr>"

text \<open>
  The object store in memory: the objects of one bucket, each a key with its bytes. A
  missing key answers with the HTTP status 404 inside an operation error, as S3 does; a
  listing is one page with the keys that start with the prefix, in the order in which they
  were stored; a write replaces the object at the key; presigning always succeeds.
\<close>

type_synonym memstore = "(string \<times> string) list"

definition notFound :: "string \<Rightarrow> err" where
  "notFound operation = ForeignWrap (''operation error S3: '' @ operation) (ResponseError 404)"

definition mem_put :: "string \<Rightarrow> string \<Rightarrow> memstore \<Rightarrow> memstore" where
  "mem_put key body w = filter (\<lambda>(k, v). k \<noteq> key) w @ [(key, body)]"

definition mem_HeadObject :: "memstore \<Rightarrow> string \<Rightarrow> string \<Rightarrow> err option" where
  "mem_HeadObject w b key =
     (case map_of w key of None \<Rightarrow> Some (notFound ''HeadObject'') | Some v \<Rightarrow> None)"

definition mem_ListObjectsV2 :: "memstore \<Rightarrow> string \<Rightarrow> string \<Rightarrow> (err + string list) list" where
  "mem_ListObjectsV2 w b prefix =
     [Inr (filter (\<lambda>k. take (length prefix) k = prefix) (map fst w))]"

definition mem_CopyObject ::
  "memstore \<Rightarrow> string \<Rightarrow> string \<Rightarrow> string \<Rightarrow> err option \<times> memstore" where
  "mem_CopyObject w b copySource key =
     (case filter (\<lambda>(k, v). url_PathEscape0 (path_Join0 [b, k]) = copySource) w of
        [] \<Rightarrow> (Some (notFound ''CopyObject''), w)
      | (k, v) # rest \<Rightarrow> (None, mem_put key v w))"

definition mem_PresignGetObject ::
  "memstore \<Rightarrow> string \<Rightarrow> string \<Rightarrow> int \<Rightarrow> string option \<times> err option" where
  "mem_PresignGetObject w b key expiry = (Some (''https://'' @ b @ ''.s3.test/'' @ key), None)"

definition mem_Download :: "memstore \<Rightarrow> string \<Rightarrow> string \<Rightarrow> string \<times> err option" where
  "mem_Download w b key =
     (case map_of w key of None \<Rightarrow> ([], Some (notFound ''GetObject'')) | Some v \<Rightarrow> (v, None))"

definition mem_Upload :: "memstore \<Rightarrow> string \<Rightarrow> string \<Rightarrow> string \<Rightarrow> err option \<times> memstore" where
  "mem_Upload w b key body = (None, mem_put key body w)"

definition mem :: "string \<Rightarrow> memstore S3Storage" where
  "mem archiveFormat =
     \<lparr>HeadObject = mem_HeadObject, ListObjectsV2 = mem_ListObjectsV2,
      CopyObject = mem_CopyObject, PresignGetObject = mem_PresignGetObject,
      Download = mem_Download, Upload = mem_Upload, bucket = ''registry'',
      bucketPrefix = [], moduleArchiveFormat = archiveFormat,
      signedURLExpiry = 30000000000\<rparr>"

section \<open>Notions the statements use\<close>

text \<open>
  The keys of the pages of a listing, in order, and whether every page of it was fetched
  without an error.
\<close>

definition listed :: "(err + string list) list \<Rightarrow> string list" where
  "listed pages = concat (map (\<lambda>page. case page of Inl e \<Rightarrow> [] | Inr keys \<Rightarrow> keys) pages)"

definition fetched :: "(err + string list) list \<Rightarrow> bool" where
  "fetched pages = list_all (\<lambda>page. case page of Inl e \<Rightarrow> False | Inr keys \<Rightarrow> True) pages"

text \<open>
  The pages of a listing before the first one whose fetch fails: the pages a loop over the
  paginator works through.
\<close>

definition fetchedPart :: "(err + string list) list \<Rightarrow> (err + string list) list" where
  "fetchedPart pages =
     takeWhile (\<lambda>page. case page of Inl e \<Rightarrow> False | Inr keys \<Rightarrow> True) pages"

text \<open>
  A listing with the keys taken out that a test rejects: the pages, and the storage whose
  \<^verbatim>\<open>ListObjectsV2\<close> answers with them.
\<close>

definition keepKeys :: "(string \<Rightarrow> bool) \<Rightarrow> (err + string list) list \<Rightarrow> (err + string list) list" where
  "keepKeys ok pages =
     map (\<lambda>page. case page of Inl e \<Rightarrow> Inl e | Inr keys \<Rightarrow> Inr (filter ok keys)) pages"

definition listingOnly :: "(string \<Rightarrow> bool) \<Rightarrow> 'w S3Storage \<Rightarrow> 'w S3Storage" where
  "listingOnly ok s = s\<lparr>ListObjectsV2 := \<lambda>w b prefix. keepKeys ok (ListObjectsV2 s w b prefix)\<rparr>"

text \<open>Whether the reverse parsers accept a key (they return no error).\<close>

definition parsesModule :: "helpers \<Rightarrow> 'w S3Storage \<Rightarrow> string \<Rightarrow> bool" where
  "parsesModule h s key = (snd (moduleFromObject h key (moduleArchiveFormat s)) = None)"

definition parsesProvider :: "helpers \<Rightarrow> string \<Rightarrow> bool" where
  "parsesProvider h key = (snd (NewProviderFromArchive h key) = None)"

text \<open>
  The \<^verbatim>\<open>CopyObject\<close> request and the log lines the migrations make for one key.
\<close>

definition moduleCopy :: "helpers \<Rightarrow> 'w S3Storage \<Rightarrow> string \<Rightarrow> string \<times> string \<times> string" where
  "moduleCopy h s key =
     (bucket s, url_PathEscape h (path_Join h [bucket s, key]),
      migrationTargetPath h (bucketPrefix s) (moduleArchiveFormat s) key)"

definition providerTarget :: "helpers \<Rightarrow> 'w S3Storage \<Rightarrow> string \<Rightarrow> string" where
  "providerTarget h s key =
     path_Join h [fst (providerMigrationTargetPath h (bucketPrefix s) key), path_Base h key]"

definition providerCopy :: "helpers \<Rightarrow> 'w S3Storage \<Rightarrow> string \<Rightarrow> string \<times> string \<times> string" where
  "providerCopy h s key =
     (bucket s, url_PathEscape h (path_Join h [bucket s, key]), providerTarget h s key)"

definition hasTarget :: "helpers \<Rightarrow> 'w S3Storage \<Rightarrow> string \<Rightarrow> bool" where
  "hasTarget h s key = (snd (providerMigrationTargetPath h (bucketPrefix s) key) = None)"

definition moduleDryRunLine :: "helpers \<Rightarrow> 'w S3Storage \<Rightarrow> string \<Rightarrow> logline" where
  "moduleDryRunLine h s key =
     (if isUnmigratedModule h (bucketPrefix s) key
      then [(''message'', ''skipping due to dry-run''), (''source'', key),
            (''target'', migrationTargetPath h (bucketPrefix s) (moduleArchiveFormat s) key)]
      else [(''message'', ''skipping...''), (''key'', key)])"

text \<open>
  The line a live run of \<^verbatim>\<open>MigrateModules\<close> gives the logger for one key: \<^verbatim>\<open>copied module\<close>
  with source and target after the copy of a key that is to be migrated, \<^verbatim>\<open>skipping...\<close>
  for any other key.
\<close>

definition moduleLiveLine :: "helpers \<Rightarrow> 'w S3Storage \<Rightarrow> string \<Rightarrow> logline" where
  "moduleLiveLine h s key =
     (if isUnmigratedModule h (bucketPrefix s) key
      then [(''message'', ''copied module''), (''source'', key),
            (''target'', migrationTargetPath h (bucketPrefix s) (moduleArchiveFormat s) key)]
      else [(''message'', ''skipping...''), (''key'', key)])"

definition providerDryRunLine :: "helpers \<Rightarrow> 'w S3Storage \<Rightarrow> string \<Rightarrow> logline" where
  "providerDryRunLine h s key =
     [(''message'', ''skipping due to dry-run''), (''source'', key),
      (''target'', providerTarget h s key)]"

section \<open>The existence check\<close>

lemma objectExists_cases:
  "objectExists s w key =
     (case HeadObject s w (bucket s) key of
        None \<Rightarrow> (True, None)
      | Some e \<Rightarrow> if as_ResponseError e = Some 404 then (False, None) else (False, Some e))"
  by (simp add: objectExists_def split: option.splits)

text \<open>
  C7. \<^verbatim>\<open>objectExists\<close> answers true without an error when \<^verbatim>\<open>HeadObject\<close> succeeds. It
  answers false without an error when the error of \<^verbatim>\<open>HeadObject\<close> is a response error
  with the HTTP status 404, and only then; every other error is returned as it is, next to
  false. \<^verbatim>\<open>GetModule\<close> turns the first answer into \<^verbatim>\<open>ErrModuleNotFound\<close> and passes every
  other error on.
\<close>

theorem objectExists_only_404_is_absent:
  "(HeadObject s w (bucket s) key = None \<longrightarrow> objectExists s w key = (True, None)) \<and>
   (\<forall>e. HeadObject s w (bucket s) key = Some e \<longrightarrow> as_ResponseError e = Some 404 \<longrightarrow>
        objectExists s w key = (False, None)) \<and>
   (\<forall>e. HeadObject s w (bucket s) key = Some e \<longrightarrow> as_ResponseError e \<noteq> Some 404 \<longrightarrow>
        objectExists s w key = (False, Some e)) \<and>
   (objectExists s w key = (False, None) \<longrightarrow>
      (\<exists>e. HeadObject s w (bucket s) key = Some e \<and> as_ResponseError e = Some 404)) \<and>
   (\<forall>e. HeadObject s w (bucket s)
          (modulePath h (bucketPrefix s) namespace name provider version
             (moduleArchiveFormat s)) = Some e \<longrightarrow>
        GetModule h s w namespace name provider version =
          Ret emptyModule (Some (if as_ResponseError e = Some 404
                                 then Sentinel ErrModuleNotFound else e)))"
  by (auto simp: objectExists_cases GetModule_def split: option.splits)

theorem objectExists_only_404_is_absent_witness:
  "objectExists (mem ''zip'') [] ''k'' = (False, None) \<and>
   objectExists (mem ''zip'') [(''k'', ''v'')] ''k'' = (True, None) \<and>
   objectExists
     ((mem ''zip'')\<lparr>HeadObject := \<lambda>w b k. Some (ForeignWrap ''HeadObject'' (ResponseError 403))\<rparr>)
     [(''k'', ''v'')] ''k'' = (False, Some (ForeignWrap ''HeadObject'' (ResponseError 403)))"
proof -
  let ?denied = "ForeignWrap ''HeadObject'' (ResponseError 403)"
  let ?s = "(mem ''zip'')\<lparr>HeadObject := \<lambda>w b k. Some ?denied\<rparr>"
  have a: "HeadObject (mem ''zip'') [] (bucket (mem ''zip'')) ''k'' = Some (notFound ''HeadObject'')"
    by (simp add: mem_def mem_HeadObject_def)
  have a': "as_ResponseError (notFound ''HeadObject'') = Some 404"
    by (simp add: notFound_def)
  have b: "HeadObject (mem ''zip'') [(''k'', ''v'')] (bucket (mem ''zip'')) ''k'' = None"
    by (simp add: mem_def mem_HeadObject_def)
  have c: "HeadObject ?s [(''k'', ''v'')] (bucket ?s) ''k'' = Some ?denied"
    by simp
  have c': "as_ResponseError ?denied \<noteq> Some 404"
    by simp
  from objectExists_only_404_is_absent [of "mem ''zip''" "[]" "''k''"] a a'
  have 1: "objectExists (mem ''zip'') [] ''k'' = (False, None)" by blast
  from objectExists_only_404_is_absent [of "mem ''zip''" "[(''k'', ''v'')]" "''k''"] b
  have 2: "objectExists (mem ''zip'') [(''k'', ''v'')] ''k'' = (True, None)" by blast
  from objectExists_only_404_is_absent [of ?s "[(''k'', ''v'')]" "''k''"] c c'
  have 3: "objectExists ?s [(''k'', ''v'')] ''k'' = (False, Some ?denied)" by blast
  from 1 2 3 show ?thesis by blast
qed

section \<open>Evaluating the instance\<close>

lemmas instance_defs =
  h0_def mem_def mem_HeadObject_def mem_ListObjectsV2_def mem_CopyObject_def
  mem_PresignGetObject_def mem_Download_def mem_Upload_def mem_put_def notFound_def
  path_Join0_def path_Base0_def url_PathEscape0_def modulePath0_def modulePathPrefix0_def
  moduleFromObject0_def isUnmigratedModule0_def migrationTargetPath0_def after_eq_def
  providerStoragePrefix0_def providerMigrationTargetPath0_def internalProviderPath0_def
  signingKeysPath0_def NewProviderFromArchive0_def Collection_List0_def readSHASums0_def
  unmarshalSigningKeys0_def

section \<open>The loops of the listings\<close>

lemma moduleObjects_append:
  "moduleObjects h s w (ks @ ks') acc =
     (case moduleObjects h s w ks acc of Inl r \<Rightarrow> Inl r | Inr ms \<Rightarrow> moduleObjects h s w ks' ms)"
  by (induction ks arbitrary: acc) (auto split: prod.splits option.splits go.splits)

lemma moduleObjects_Inl:
  "moduleObjects h s w ks acc = Inl r \<Longrightarrow> r = Panic \<or> (\<exists>e. r = Ret [] (Some e))"
  by (induction ks arbitrary: acc) (auto split: prod.splits option.splits go.splits)

lemma modulePages_append:
  "modulePages h s w (ps @ ps') acc =
     (case modulePages h s w ps acc of Ret ms None \<Rightarrow> modulePages h s w ps' ms | r \<Rightarrow> r)"
proof (induction ps arbitrary: acc)
  case Nil
  then show ?case by simp
next
  case (Cons page ps)
  show ?case
  proof (cases page)
    case (Inl e)
    then show ?thesis by simp
  next
    case (Inr ks)
    show ?thesis
    proof (cases "moduleObjects h s w ks acc")
      case (Inl r)
      with moduleObjects_Inl [OF Inl] Inr show ?thesis by auto
    next
      case (Inr ms)
      with \<open>page = Inr ks\<close> Cons.IH [of ms] show ?thesis by simp
    qed
  qed
qed

lemma modulePages_last_page:
  "modulePages h s w (ps @ [Inr (ks @ ks')]) acc =
     (case modulePages h s w (ps @ [Inr ks]) acc of
        Ret ms None \<Rightarrow> (case moduleObjects h s w ks' ms of Inl r \<Rightarrow> r | Inr ms' \<Rightarrow> Ret ms' None)
      | r \<Rightarrow> r)"
  apply (simp add: modulePages_append [of h s w ps] moduleObjects_append split: go.splits option.splits sum.splits)
  apply (auto dest: moduleObjects_Inl)
  done

section \<open>Presigning\<close>

lemma ListModuleVersions_panics_at:
  assumes pages: "ListObjectsV2 s w (bucket s) (modulePathPrefix h (bucketPrefix s) namespace name provider)
                    = ps @ Inr (ks @ key # ks') # ps'"
    and reached: "modulePages h s w (ps @ [Inr ks]) [] = Ret ms None"
    and parsed: "moduleFromObject h key (moduleArchiveFormat s) = (Some m, None)"
    and nil: "PresignGetObject s w (bucket s)
                (modulePath h (bucketPrefix s) (Namespace m) (Name m) (Provider m) (Version m)
                   (moduleArchiveFormat s)) (signedURLExpiry s) = (None, e)"
  shows "ListModuleVersions h s w namespace name provider = Panic"
proof -
  have "moduleObjects h s w (key # ks') ms = Inl Panic"
    using parsed nil by (simp add: presignedURL_def)
  with reached have "modulePages h s w (ps @ [Inr (ks @ key # ks')]) [] = Panic"
    by (simp add: modulePages_last_page)
  then have "modulePages h s w ((ps @ [Inr (ks @ key # ks')]) @ ps') [] = Panic"
    by (simp only: modulePages_append [of h s w "ps @ [Inr (ks @ key # ks')]"] go.case)
  then show ?thesis
    using pages by (simp add: ListModuleVersions_def)
qed

text \<open>
  C9. \<^verbatim>\<open>presignedURL\<close> panics whenever the presign client returns a \<^verbatim>\<open>nil\<close> result,
  whatever the error next to it; it returns the client's error only together with the URL
  of a result that is not \<^verbatim>\<open>nil\<close>. So \<^verbatim>\<open>GetModule\<close> panics when the object exists and
  the presign result is \<^verbatim>\<open>nil\<close>, \<^verbatim>\<open>ListModuleVersions\<close> panics at the first key it parses
  whose presign result is \<^verbatim>\<open>nil\<close>, and \<^verbatim>\<open>GetProvider\<close> panics at the first of its three
  presign calls (archive, checksums, signature) whose result is \<^verbatim>\<open>nil\<close>.
\<close>

theorem presign_nil_result_panics:
  "(\<forall>e. PresignGetObject s w (bucket s) key (signedURLExpiry s) = (None, e) \<longrightarrow>
        presignedURL s w key = Panic) \<and>
   (\<forall>url err. presignedURL s w key = Ret url (Some err) \<longrightarrow>
        PresignGetObject s w (bucket s) key (signedURLExpiry s) = (Some url, Some err)) \<and>
   (\<forall>e. HeadObject s w (bucket s)
          (modulePath h (bucketPrefix s) namespace name provider version
             (moduleArchiveFormat s)) = None \<longrightarrow>
        PresignGetObject s w (bucket s)
          (modulePath h (bucketPrefix s) namespace name provider version
             (moduleArchiveFormat s)) (signedURLExpiry s) = (None, e) \<longrightarrow>
        GetModule h s w namespace name provider version = Panic) \<and>
   (\<forall>ps ks k ks' ps' ms m e.
        ListObjectsV2 s w (bucket s) (modulePathPrefix h (bucketPrefix s) namespace name provider)
          = ps @ Inr (ks @ k # ks') # ps' \<longrightarrow>
        modulePages h s w (ps @ [Inr ks]) [] = Ret ms None \<longrightarrow>
        moduleFromObject h k (moduleArchiveFormat s) = (Some m, None) \<longrightarrow>
        PresignGetObject s w (bucket s)
          (modulePath h (bucketPrefix s) (Namespace m) (Name m) (Provider m) (Version m)
             (moduleArchiveFormat s)) (signedURLExpiry s) = (None, e) \<longrightarrow>
        ListModuleVersions h s w namespace name provider = Panic) \<and>
   (\<forall>archivePath shasumPath shasumSigPath e.
        internalProviderPath h (bucketPrefix s) namespace name version os arch
          = ((archivePath, shasumPath, shasumSigPath), None) \<longrightarrow>
        PresignGetObject s w (bucket s) archivePath (signedURLExpiry s) = (None, e) \<longrightarrow>
        GetProvider h s w namespace name version os arch = Panic) \<and>
   (\<forall>archivePath shasumPath shasumSigPath zipURL e.
        internalProviderPath h (bucketPrefix s) namespace name version os arch
          = ((archivePath, shasumPath, shasumSigPath), None) \<longrightarrow>
        PresignGetObject s w (bucket s) archivePath (signedURLExpiry s) = (Some zipURL, None) \<longrightarrow>
        PresignGetObject s w (bucket s) shasumPath (signedURLExpiry s) = (None, e) \<longrightarrow>
        GetProvider h s w namespace name version os arch = Panic) \<and>
   (\<forall>archivePath shasumPath shasumSigPath zipURL shasumsURL e.
        internalProviderPath h (bucketPrefix s) namespace name version os arch
          = ((archivePath, shasumPath, shasumSigPath), None) \<longrightarrow>
        PresignGetObject s w (bucket s) archivePath (signedURLExpiry s) = (Some zipURL, None) \<longrightarrow>
        PresignGetObject s w (bucket s) shasumPath (signedURLExpiry s) = (Some shasumsURL, None) \<longrightarrow>
        PresignGetObject s w (bucket s) shasumSigPath (signedURLExpiry s) = (None, e) \<longrightarrow>
        GetProvider h s w namespace name version os arch = Panic)"
proof (intro conjI allI impI)
  fix e assume "PresignGetObject s w (bucket s) key (signedURLExpiry s) = (None, e)"
  then show "presignedURL s w key = Panic" by (simp add: presignedURL_def)
next
  fix url err assume "presignedURL s w key = Ret url (Some err)"
  then show "PresignGetObject s w (bucket s) key (signedURLExpiry s) = (Some url, Some err)"
    by (auto simp: presignedURL_def split: prod.splits option.splits)
next
  fix e
  let ?key = "modulePath h (bucketPrefix s) namespace name provider version (moduleArchiveFormat s)"
  assume "HeadObject s w (bucket s) ?key = None"
    and "PresignGetObject s w (bucket s) ?key (signedURLExpiry s) = (None, e)"
  then show "GetModule h s w namespace name provider version = Panic"
    by (simp add: GetModule_def objectExists_def presignedURL_def)
next
  fix ps ks k ks' ps' ms m e
  assume "ListObjectsV2 s w (bucket s) (modulePathPrefix h (bucketPrefix s) namespace name provider)
            = ps @ Inr (ks @ k # ks') # ps'"
    and "modulePages h s w (ps @ [Inr ks]) [] = Ret ms None"
    and "moduleFromObject h k (moduleArchiveFormat s) = (Some m, None)"
    and "PresignGetObject s w (bucket s)
          (modulePath h (bucketPrefix s) (Namespace m) (Name m) (Provider m) (Version m)
             (moduleArchiveFormat s)) (signedURLExpiry s) = (None, e)"
  then show "ListModuleVersions h s w namespace name provider = Panic"
    by (rule ListModuleVersions_panics_at)
next
  fix archivePath shasumPath shasumSigPath e
  assume "internalProviderPath h (bucketPrefix s) namespace name version os arch
            = ((archivePath, shasumPath, shasumSigPath), None)"
    and "PresignGetObject s w (bucket s) archivePath (signedURLExpiry s) = (None, e)"
  then show "GetProvider h s w namespace name version os arch = Panic"
    by (simp add: GetProvider_def presignedURL_def)
next
  fix archivePath shasumPath shasumSigPath zipURL e
  assume "internalProviderPath h (bucketPrefix s) namespace name version os arch
            = ((archivePath, shasumPath, shasumSigPath), None)"
    and "PresignGetObject s w (bucket s) archivePath (signedURLExpiry s) = (Some zipURL, None)"
    and "PresignGetObject s w (bucket s) shasumPath (signedURLExpiry s) = (None, e)"
  then show "GetProvider h s w namespace name version os arch = Panic"
    by (simp add: GetProvider_def presignedURL_def)
next
  fix archivePath shasumPath shasumSigPath zipURL shasumsURL e
  assume "internalProviderPath h (bucketPrefix s) namespace name version os arch
            = ((archivePath, shasumPath, shasumSigPath), None)"
    and "PresignGetObject s w (bucket s) archivePath (signedURLExpiry s) = (Some zipURL, None)"
    and "PresignGetObject s w (bucket s) shasumPath (signedURLExpiry s) = (Some shasumsURL, None)"
    and "PresignGetObject s w (bucket s) shasumSigPath (signedURLExpiry s) = (None, e)"
  then show "GetProvider h s w namespace name version os arch = Panic"
    by (simp add: GetProvider_def presignedURL_def)
qed

theorem presign_nil_result_panics_witness:
  "presignedURL ((mem ''tar.gz'')\<lparr>PresignGetObject := \<lambda>w b k x. (None, Some (OpaqueError ''no credentials''))\<rparr>)
     [] ''k'' = Panic \<and>
   PresignGetObject ((mem ''tar.gz'')\<lparr>PresignGetObject := \<lambda>w b k x. (Some ''u'', Some (OpaqueError ''expired''))\<rparr>)
     [] ''registry'' ''k'' 30000000000 = (Some ''u'', Some (OpaqueError ''expired'')) \<and>
   GetModule h0 ((mem ''tar.gz'')\<lparr>PresignGetObject := \<lambda>w b k x. (None, Some (OpaqueError ''no credentials''))\<rparr>)
     [(''modules/hashicorp/consul/aws/1.0.0/consul.tar.gz'', ''B'')]
     ''hashicorp'' ''consul'' ''aws'' ''1.0.0'' = Panic \<and>
   ListModuleVersions h0 ((mem ''tar.gz'')\<lparr>PresignGetObject := \<lambda>w b k x. (None, Some (OpaqueError ''no credentials''))\<rparr>)
     [(''modules/hashicorp/consul/aws/README'', ''R''),
      (''modules/hashicorp/consul/aws/1.0.0/consul.tar.gz'', ''B'')]
     ''hashicorp'' ''consul'' ''aws'' = Panic \<and>
   GetProvider h0 ((mem ''tar.gz'')\<lparr>PresignGetObject := \<lambda>w b k x. (None, Some (OpaqueError ''no credentials''))\<rparr>)
     [] ''hashicorp'' ''aws'' ''1.0.0'' ''linux'' ''amd64'' = Panic"
proof -
  let ?e = "Some (OpaqueError ''no credentials'')"
  let ?s = "(mem ''tar.gz'')\<lparr>PresignGetObject := \<lambda>w b k x. (None, ?e)\<rparr>"
  let ?t = "(mem ''tar.gz'')\<lparr>PresignGetObject := \<lambda>w b k x. (Some ''u'', Some (OpaqueError ''expired''))\<rparr>"
  let ?key = "''modules/hashicorp/consul/aws/1.0.0/consul.tar.gz''"
  let ?w = "[(?key, ''B'')]"
  let ?w2 = "[(''modules/hashicorp/consul/aws/README'', ''R''), (?key, ''B'')]"
  let ?m = "\<lparr>Namespace = ''hashicorp'', Name = ''consul'', Provider = ''aws'',
             Version = ''1.0.0'', DownloadURL = []\<rparr>"
  have nil: "\<And>w k. PresignGetObject ?s w (bucket ?s) k (signedURLExpiry ?s) = (None, ?e)"
    by simp
  have 1: "presignedURL ?s [] ''k'' = Panic"
    by (rule presign_nil_result_panics [THEN conjunct1, rule_format, OF nil])
  have "presignedURL ?t [] ''k'' = Ret ''u'' (Some (OpaqueError ''expired''))"
    by (simp add: presignedURL_def)
  then have "PresignGetObject ?t [] (bucket ?t) ''k'' (signedURLExpiry ?t)
               = (Some ''u'', Some (OpaqueError ''expired''))"
    by (rule presign_nil_result_panics [THEN conjunct2, THEN conjunct1, rule_format])
  then have 2: "PresignGetObject ?t [] ''registry'' ''k'' 30000000000
               = (Some ''u'', Some (OpaqueError ''expired''))"
    by (simp add: mem_def)
  have key: "modulePath h0 (bucketPrefix ?s) ''hashicorp'' ''consul'' ''aws'' ''1.0.0''
               (moduleArchiveFormat ?s) = ?key"
    by (simp add: instance_defs)
  have head: "HeadObject ?s ?w (bucket ?s)
                (modulePath h0 (bucketPrefix ?s) ''hashicorp'' ''consul'' ''aws'' ''1.0.0''
                   (moduleArchiveFormat ?s)) = None"
    by (simp add: instance_defs)
  have 3: "GetModule h0 ?s ?w ''hashicorp'' ''consul'' ''aws'' ''1.0.0'' = Panic"
    by (rule presign_nil_result_panics
          [THEN conjunct2, THEN conjunct2, THEN conjunct1, rule_format, OF head nil])
  have pages: "ListObjectsV2 ?s ?w2 (bucket ?s)
                 (modulePathPrefix h0 (bucketPrefix ?s) ''hashicorp'' ''consul'' ''aws'')
               = [] @ Inr ([''modules/hashicorp/consul/aws/README''] @ ?key # []) # []"
    by (simp add: instance_defs)
  have reached: "modulePages h0 ?s ?w2 ([] @ [Inr [''modules/hashicorp/consul/aws/README'']]) []
                   = Ret [] None"
    by (simp add: instance_defs)
  have parsed: "moduleFromObject h0 ?key (moduleArchiveFormat ?s) = (Some ?m, None)"
    by (simp add: instance_defs)
  have 4: "ListModuleVersions h0 ?s ?w2 ''hashicorp'' ''consul'' ''aws'' = Panic"
    by (rule presign_nil_result_panics
          [THEN conjunct2, THEN conjunct2, THEN conjunct2, THEN conjunct1, rule_format,
           OF pages reached parsed nil])
  have paths: "internalProviderPath h0 (bucketPrefix ?s) ''hashicorp'' ''aws'' ''1.0.0'' ''linux'' ''amd64''
      = ((''providers/hashicorp/aws/terraform-provider-aws_1.0.0_linux_amd64.zip'',
          ''providers/hashicorp/aws/terraform-provider-aws_1.0.0_SHA256SUMS'',
          ''providers/hashicorp/aws/terraform-provider-aws_1.0.0_SHA256SUMS.sig''), None)"
    by (simp add: instance_defs)
  have 5: "GetProvider h0 ?s [] ''hashicorp'' ''aws'' ''1.0.0'' ''linux'' ''amd64'' = Panic"
    by (rule presign_nil_result_panics
          [THEN conjunct2, THEN conjunct2, THEN conjunct2, THEN conjunct2, THEN conjunct1,
           rule_format, OF paths nil])
  from 1 2 3 4 5 show ?thesis by blast
qed

section \<open>Uploading a module\<close>

lemma GetModule_cases:
  "GetModule h s w namespace name provider version =
     (let key = modulePath h (bucketPrefix s) namespace name provider version (moduleArchiveFormat s)
      in case HeadObject s w (bucket s) key of
           Some e \<Rightarrow> Ret emptyModule (Some (if as_ResponseError e = Some 404
                                               then Sentinel ErrModuleNotFound else e))
         | None \<Rightarrow>
             (case PresignGetObject s w (bucket s) key (signedURLExpiry s) of
                (None, e) \<Rightarrow> Panic
              | (Some url, Some e) \<Rightarrow> Ret emptyModule (Some e)
              | (Some url, None) \<Rightarrow>
                  Ret \<lparr>Namespace = namespace, Name = name, Provider = provider,
                       Version = version, DownloadURL = url\<rparr> None))"
  by (simp add: GetModule_def objectExists_cases presignedURL_def Let_def
           split: option.splits prod.splits)

text \<open>
  C10. When the coordinates are not empty and the \<^verbatim>\<open>GetModule\<close> call that looks for an
  earlier upload returns an error, whatever the error is, \<^verbatim>\<open>UploadModule\<close> goes on to the
  upload: its result is the wrapped error of the upload, or what the second \<^verbatim>\<open>GetModule\<close>
  call returns on the store after the upload. The error of the first call is not part of
  the result. Every error of \<^verbatim>\<open>HeadObject\<close> and every error of the presign client (next to
  a result that is not \<^verbatim>\<open>nil\<close>) makes the first call return an error.
\<close>

theorem UploadModule_discards_check_error:
  "(namespace \<noteq> [] \<longrightarrow> name \<noteq> [] \<longrightarrow> provider \<noteq> [] \<longrightarrow> version \<noteq> [] \<longrightarrow>
    GetModule h s w namespace name provider version = Ret m (Some e) \<longrightarrow>
    UploadModule h s w namespace name provider version body =
      (case Upload s w (bucket s)
              (modulePath h (bucketPrefix s) namespace name provider version
                 (DefaultModuleArchiveFormat h)) body of
         (Some err, w') \<Rightarrow>
           (Ret emptyModule (Some (WrapText (Sentinel ErrModuleUploadFailed) err)), w')
       | (None, w') \<Rightarrow> (GetModule h s w' namespace name provider version, w'))) \<and>
   (\<forall>e'. HeadObject s w (bucket s)
           (modulePath h (bucketPrefix s) namespace name provider version
              (moduleArchiveFormat s)) = Some e' \<longrightarrow>
         (\<exists>e''. GetModule h s w namespace name provider version = Ret emptyModule (Some e''))) \<and>
   (\<forall>url e'. HeadObject s w (bucket s)
           (modulePath h (bucketPrefix s) namespace name provider version
              (moduleArchiveFormat s)) = None \<longrightarrow>
         PresignGetObject s w (bucket s)
           (modulePath h (bucketPrefix s) namespace name provider version
              (moduleArchiveFormat s)) (signedURLExpiry s) = (Some url, Some e') \<longrightarrow>
         GetModule h s w namespace name provider version = Ret emptyModule (Some e'))"
  by (simp add: UploadModule_def GetModule_cases Let_def split: prod.splits option.splits)

theorem UploadModule_discards_check_error_witness:
  "GetModule h0
     ((mem ''tar.gz'')\<lparr>HeadObject := \<lambda>w b k. Some (ForeignWrap ''HeadObject'' (ResponseError 403))\<rparr>)
     [(''modules/hashicorp/consul/aws/1.0.0/consul.tar.gz'', ''OLD'')]
     ''hashicorp'' ''consul'' ''aws'' ''1.0.0''
     = Ret emptyModule (Some (ForeignWrap ''HeadObject'' (ResponseError 403))) \<and>
   UploadModule h0
     ((mem ''tar.gz'')\<lparr>HeadObject := \<lambda>w b k. Some (ForeignWrap ''HeadObject'' (ResponseError 403))\<rparr>)
     [(''modules/hashicorp/consul/aws/1.0.0/consul.tar.gz'', ''OLD'')]
     ''hashicorp'' ''consul'' ''aws'' ''1.0.0'' ''NEW''
     = (Ret emptyModule (Some (ForeignWrap ''HeadObject'' (ResponseError 403))),
        [(''modules/hashicorp/consul/aws/1.0.0/consul.tar.gz'', ''NEW'')])"
proof -
  let ?denied = "ForeignWrap ''HeadObject'' (ResponseError 403)"
  let ?s = "(mem ''tar.gz'')\<lparr>HeadObject := \<lambda>w b k. Some ?denied\<rparr>"
  let ?key = "''modules/hashicorp/consul/aws/1.0.0/consul.tar.gz''"
  have check: "\<And>w. GetModule h0 ?s w ''hashicorp'' ''consul'' ''aws'' ''1.0.0''
                 = Ret emptyModule (Some ?denied)"
    by (simp add: GetModule_cases)
  have "UploadModule h0 ?s [(?key, ''OLD'')] ''hashicorp'' ''consul'' ''aws'' ''1.0.0'' ''NEW''
          = (GetModule h0 ?s [(?key, ''NEW'')] ''hashicorp'' ''consul'' ''aws'' ''1.0.0'',
             [(?key, ''NEW'')])"
    using UploadModule_discards_check_error
            [THEN conjunct1, rule_format, OF _ _ _ _ check, of "[(?key, ''OLD'')]" "''NEW''"]
    by (simp add: instance_defs)
  with check show ?thesis by simp
qed

text \<open>
  C2, at two inputs. The claim is that an \<^verbatim>\<open>UploadModule\<close> call at coordinates whose
  object is in the store fails with \<^verbatim>\<open>ErrModuleAlreadyExists\<close> and writes nothing. In the
  first input the object of the module is in the store, \<^verbatim>\<open>HeadObject\<close> is refused with
  the HTTP status 403, and the upload is not: \<^verbatim>\<open>UploadModule\<close> replaces the object and
  returns the error of \<^verbatim>\<open>HeadObject\<close>, where \<^verbatim>\<open>UploadProviderReleaseFiles\<close>, on the same
  storage with its object present, returns that error and leaves the store as it was. In
  the second input the store works and holds the object a first \<^verbatim>\<open>UploadModule\<close> wrote, under
  a storage configured with the archive format \<^verbatim>\<open>zip\<close>: the second \<^verbatim>\<open>UploadModule\<close> looks
  for the key that ends in \<^verbatim>\<open>.zip\<close>, replaces the object at the key that ends in
  \<^verbatim>\<open>.tar.gz\<close> and returns \<^verbatim>\<open>ErrModuleNotFound\<close>. Neither result is
  \<^verbatim>\<open>ErrModuleAlreadyExists\<close>.
\<close>

theorem UploadModule_overwrites_when_check_fails:
  "map_of [(''modules/hashicorp/consul/aws/1.0.0/consul.tar.gz'', ''OLD'')]
     (modulePath h0 [] ''hashicorp'' ''consul'' ''aws'' ''1.0.0'' ''tar.gz'') = Some ''OLD'' \<and>
   UploadModule h0
     ((mem ''tar.gz'')\<lparr>HeadObject := \<lambda>w b k. Some (ForeignWrap ''HeadObject'' (ResponseError 403))\<rparr>)
     [(''modules/hashicorp/consul/aws/1.0.0/consul.tar.gz'', ''OLD'')]
     ''hashicorp'' ''consul'' ''aws'' ''1.0.0'' ''NEW''
     = (Ret emptyModule (Some (ForeignWrap ''HeadObject'' (ResponseError 403))),
        [(''modules/hashicorp/consul/aws/1.0.0/consul.tar.gz'', ''NEW'')]) \<and>
   sentinel_of (ForeignWrap ''HeadObject'' (ResponseError 403)) \<noteq> Some ErrModuleAlreadyExists \<and>
   UploadProviderReleaseFiles h0
     ((mem ''tar.gz'')\<lparr>HeadObject := \<lambda>w b k. Some (ForeignWrap ''HeadObject'' (ResponseError 403))\<rparr>)
     [(''providers/hashicorp/aws/terraform-provider-aws_1.0.0_linux_amd64.zip'', ''OLD'')]
     ''hashicorp'' ''aws'' ''terraform-provider-aws_1.0.0_linux_amd64.zip'' ''NEW''
     = (Some (ForeignWrap ''HeadObject'' (ResponseError 403)),
        [(''providers/hashicorp/aws/terraform-provider-aws_1.0.0_linux_amd64.zip'', ''OLD'')]) \<and>
   snd (UploadModule h0 (mem ''zip'') [] ''hashicorp'' ''consul'' ''aws'' ''1.0.0'' ''FIRST'')
     = [(''modules/hashicorp/consul/aws/1.0.0/consul.tar.gz'', ''FIRST'')] \<and>
   UploadModule h0 (mem ''zip'')
     [(''modules/hashicorp/consul/aws/1.0.0/consul.tar.gz'', ''FIRST'')]
     ''hashicorp'' ''consul'' ''aws'' ''1.0.0'' ''SECOND''
     = (Ret emptyModule (Some (Sentinel ErrModuleNotFound)),
        [(''modules/hashicorp/consul/aws/1.0.0/consul.tar.gz'', ''SECOND'')])"
  by (simp add: UploadModule_def GetModule_cases UploadProviderReleaseFiles_def
        objectExists_cases Let_def instance_defs)

text \<open>
  When the coordinates are not empty and the check finds the module, that is
  \<^verbatim>\<open>HeadObject\<close> returns no error for the key built from the configured archive format and
  the presign client returns a URL and no error for it, \<^verbatim>\<open>UploadModule\<close> returns an error
  that wraps \<^verbatim>\<open>ErrModuleAlreadyExists\<close> and leaves the store as it was: \<^verbatim>\<open>Upload\<close> is not
  called.
\<close>

theorem UploadModule_rejects_found_module:
  "namespace \<noteq> [] \<longrightarrow> name \<noteq> [] \<longrightarrow> provider \<noteq> [] \<longrightarrow> version \<noteq> [] \<longrightarrow>
   HeadObject s w (bucket s)
     (modulePath h (bucketPrefix s) namespace name provider version (moduleArchiveFormat s))
     = None \<longrightarrow>
   PresignGetObject s w (bucket s)
     (modulePath h (bucketPrefix s) namespace name provider version (moduleArchiveFormat s))
     (signedURLExpiry s) = (Some url, None) \<longrightarrow>
   UploadModule h s w namespace name provider version body =
     (Ret emptyModule
        (Some (Wrap (Sentinel ErrModuleAlreadyExists)
                 (modulePath h (bucketPrefix s) namespace name provider version
                    (DefaultModuleArchiveFormat h)))), w) \<and>
   sentinel_of (Wrap (Sentinel ErrModuleAlreadyExists)
                 (modulePath h (bucketPrefix s) namespace name provider version
                    (DefaultModuleArchiveFormat h))) = Some ErrModuleAlreadyExists"
  by (simp add: UploadModule_def GetModule_cases Let_def)

theorem UploadModule_rejects_found_module_witness:
  "snd (UploadModule h0 (mem ''tar.gz'') [] ''hashicorp'' ''consul'' ''aws'' ''1.0.0'' ''FIRST'')
     = [(''modules/hashicorp/consul/aws/1.0.0/consul.tar.gz'', ''FIRST'')] \<and>
   UploadModule h0 (mem ''tar.gz'')
     [(''modules/hashicorp/consul/aws/1.0.0/consul.tar.gz'', ''FIRST'')]
     ''hashicorp'' ''consul'' ''aws'' ''1.0.0'' ''SECOND''
     = (Ret emptyModule
          (Some (Wrap (Sentinel ErrModuleAlreadyExists)
                   ''modules/hashicorp/consul/aws/1.0.0/consul.tar.gz'')),
        [(''modules/hashicorp/consul/aws/1.0.0/consul.tar.gz'', ''FIRST'')])"
proof -
  let ?s = "mem ''tar.gz''"
  let ?key = "''modules/hashicorp/consul/aws/1.0.0/consul.tar.gz''"
  let ?w = "[(?key, ''FIRST'')]"
  have first: "snd (UploadModule h0 ?s [] ''hashicorp'' ''consul'' ''aws'' ''1.0.0'' ''FIRST'') = ?w"
    by (simp add: UploadModule_def GetModule_cases Let_def instance_defs)
  have key: "modulePath h0 (bucketPrefix ?s) ''hashicorp'' ''consul'' ''aws'' ''1.0.0''
               (moduleArchiveFormat ?s) = ?key"
    by (simp add: instance_defs)
  have key': "modulePath h0 (bucketPrefix ?s) ''hashicorp'' ''consul'' ''aws'' ''1.0.0''
               (DefaultModuleArchiveFormat h0) = ?key"
    by (simp add: instance_defs)
  have head: "HeadObject ?s ?w (bucket ?s)
                (modulePath h0 (bucketPrefix ?s) ''hashicorp'' ''consul'' ''aws'' ''1.0.0''
                   (moduleArchiveFormat ?s)) = None"
    by (simp add: instance_defs)
  have presign: "PresignGetObject ?s ?w (bucket ?s)
                (modulePath h0 (bucketPrefix ?s) ''hashicorp'' ''consul'' ''aws'' ''1.0.0''
                   (moduleArchiveFormat ?s)) (signedURLExpiry ?s)
                 = (Some (''https://registry.s3.test/'' @ ?key), None)"
    by (simp add: instance_defs)
  have "UploadModule h0 ?s ?w ''hashicorp'' ''consul'' ''aws'' ''1.0.0'' ''SECOND''
          = (Ret emptyModule (Some (Wrap (Sentinel ErrModuleAlreadyExists) ?key)), ?w)"
    using UploadModule_rejects_found_module
            [rule_format, OF _ _ _ _ head presign, THEN conjunct1, of "''SECOND''"]
    by (simp add: key')
  with first show ?thesis by simp
qed

section \<open>Listings without a match\<close>

lemma moduleObjects_unparsable:
  "\<forall>k\<in>set ks. \<not> parsesModule h s k \<Longrightarrow> moduleObjects h s w ks acc = Inr acc"
  by (induction ks arbitrary: acc) (auto simp: parsesModule_def split: prod.splits option.splits)

lemma modulePages_unparsable:
  "fetched ps \<Longrightarrow> \<forall>k\<in>set (listed ps). \<not> parsesModule h s k \<Longrightarrow>
   modulePages h s w ps acc = Ret acc None"
proof (induction ps arbitrary: acc)
  case Nil
  then show ?case by simp
next
  case (Cons page ps)
  then show ?case
    by (cases page) (auto simp: fetched_def listed_def moduleObjects_unparsable)
qed

lemma providerObjects_unparsable:
  "\<forall>k\<in>set ks. \<not> parsesProvider h k \<Longrightarrow> providerObjects h ks c = c"
  by (induction ks arbitrary: c) (auto simp: parsesProvider_def split: prod.splits option.splits)

lemma providerPages_unparsable:
  "fetched ps \<Longrightarrow> \<forall>k\<in>set (listed ps). \<not> parsesProvider h k \<Longrightarrow>
   providerPages h ps c = (c, None)"
proof (induction ps arbitrary: c)
  case Nil
  then show ?case by simp
next
  case (Cons page ps)
  then show ?case
    by (cases page) (auto simp: fetched_def listed_def providerObjects_unparsable)
qed

text \<open>
  C5. When every page of the listing is fetched and no key of it is accepted by the reverse
  parser, \<^verbatim>\<open>ListModuleVersions\<close> returns the empty list and no error, and
  \<^verbatim>\<open>ListProviderVersions\<close> returns the error \<^verbatim>\<open>no provider versions found for <namespace>/<name>\<close>
  and no versions. For providers the prefix must have been computed, or no listing is
  made, and the collection, which is not in \<^verbatim>\<open>s3.go\<close>, must list nothing when nothing
  was added.
\<close>

theorem empty_listing_modules_empty_providers_error:
  "(fetched (ListObjectsV2 s w (bucket s)
              (modulePathPrefix h (bucketPrefix s) namespace name provider)) \<longrightarrow>
    (\<forall>k\<in>set (listed (ListObjectsV2 s w (bucket s)
                         (modulePathPrefix h (bucketPrefix s) namespace name provider))).
        \<not> parsesModule h s k) \<longrightarrow>
    ListModuleVersions h s w namespace name provider = Ret [] None) \<and>
   (\<forall>prefix.
      providerStoragePrefix h (bucketPrefix s) (internalProviderType h) [] namespace name
        = (prefix, None) \<longrightarrow>
      fetched (ListObjectsV2 s w (bucket s) (prefix @ ''/'')) \<longrightarrow>
      (\<forall>k\<in>set (listed (ListObjectsV2 s w (bucket s) (prefix @ ''/''))). \<not> parsesProvider h k) \<longrightarrow>
      Collection_List h [] = [] \<longrightarrow>
      ListProviderVersions h s w namespace name =
        ([], Some (ErrorString (''no provider versions found for '' @ namespace @ ''/'' @ name))))"
  by (simp add: ListModuleVersions_def ListProviderVersions_def modulePages_unparsable
        providerPages_unparsable)

theorem empty_listing_modules_empty_providers_error_witness:
  "ListModuleVersions h0 (mem ''tar.gz'') [] ''hashicorp'' ''consul'' ''aws'' = Ret [] None \<and>
   ListProviderVersions h0 (mem ''tar.gz'') [] ''hashicorp'' ''aws'' =
     ([], Some (ErrorString ''no provider versions found for hashicorp/aws'')) \<and>
   ListModuleVersions h0 (mem ''tar.gz'') [(''modules/hashicorp/consul/aws/README'', ''R'')]
     ''hashicorp'' ''consul'' ''aws'' = Ret [] None \<and>
   ListProviderVersions h0 (mem ''tar.gz'') [(''providers/hashicorp/aws/README'', ''R'')]
     ''hashicorp'' ''aws'' =
     ([], Some (ErrorString ''no provider versions found for hashicorp/aws''))"
proof -
  let ?s = "mem ''tar.gz''"
  let ?wm = "[(''modules/hashicorp/consul/aws/README'', ''R'')]"
  let ?wp = "[(''providers/hashicorp/aws/README'', ''R'')]"
  have prefix: "providerStoragePrefix h0 (bucketPrefix ?s) (internalProviderType h0) []
                  ''hashicorp'' ''aws'' = (''providers/hashicorp/aws'', None)"
    by (simp add: instance_defs)
  have coll: "Collection_List h0 [] = []"
    by (simp add: instance_defs)
  have 1: "ListModuleVersions h0 ?s [] ''hashicorp'' ''consul'' ''aws'' = Ret [] None"
    by (rule empty_listing_modules_empty_providers_error [THEN conjunct1, rule_format])
       (simp_all add: fetched_def listed_def parsesModule_def instance_defs)
  have 2: "ListProviderVersions h0 ?s [] ''hashicorp'' ''aws'' =
     ([], Some (ErrorString (''no provider versions found for '' @ ''hashicorp'' @ ''/'' @ ''aws'')))"
    by (rule empty_listing_modules_empty_providers_error
              [THEN conjunct2, rule_format, OF prefix _ _ coll])
       (simp_all add: fetched_def listed_def parsesProvider_def instance_defs)
  have 3: "ListModuleVersions h0 ?s ?wm ''hashicorp'' ''consul'' ''aws'' = Ret [] None"
    by (rule empty_listing_modules_empty_providers_error [THEN conjunct1, rule_format])
       (simp_all add: fetched_def listed_def parsesModule_def instance_defs)
  have 4: "ListProviderVersions h0 ?s ?wp ''hashicorp'' ''aws'' =
     ([], Some (ErrorString (''no provider versions found for '' @ ''hashicorp'' @ ''/'' @ ''aws'')))"
    by (rule empty_listing_modules_empty_providers_error
              [THEN conjunct2, rule_format, OF prefix _ _ coll])
       (simp_all add: fetched_def listed_def parsesProvider_def instance_defs)
  from 1 2 3 4 show ?thesis by simp
qed

section \<open>Listings: keys that do not parse, pages that fail\<close>

lemma presignedURL_listingOnly [simp]: "presignedURL (listingOnly ok s) w key = presignedURL s w key"
  by (simp add: presignedURL_def listingOnly_def)

lemma moduleObjects_listingOnly [simp]:
  "moduleObjects h (listingOnly ok s) w ks acc = moduleObjects h s w ks acc"
proof (induction ks arbitrary: acc)
  case Nil
  show ?case by simp
next
  case (Cons k ks)
  have fmt: "moduleArchiveFormat (listingOnly ok s) = moduleArchiveFormat s"
    and pre: "bucketPrefix (listingOnly ok s) = bucketPrefix s"
    by (simp_all add: listingOnly_def)
  show ?case
    by (simp add: fmt pre Cons.IH split: prod.splits option.splits go.splits)
qed

lemma modulePages_listingOnly [simp]:
  "modulePages h (listingOnly ok s) w ps acc = modulePages h s w ps acc"
  by (induction ps arbitrary: acc) (auto split: sum.splits)

lemma moduleObjects_filter:
  "moduleObjects h s w (filter (parsesModule h s) ks) acc = moduleObjects h s w ks acc"
  by (induction ks arbitrary: acc)
     (auto simp: parsesModule_def split: prod.splits option.splits go.splits)

lemma modulePages_keepKeys:
  "modulePages h s w (keepKeys (parsesModule h s) ps) acc = modulePages h s w ps acc"
  by (induction ps arbitrary: acc)
     (auto simp: keepKeys_def moduleObjects_filter split: sum.splits)

lemma providerObjects_filter:
  "providerObjects h (filter (parsesProvider h) ks) c = providerObjects h ks c"
  by (induction ks arbitrary: c) (auto simp: parsesProvider_def split: prod.splits option.splits)

lemma providerPages_keepKeys:
  "providerPages h (keepKeys (parsesProvider h) ps) c = providerPages h ps c"
  by (induction ps arbitrary: c)
     (auto simp: keepKeys_def providerObjects_filter split: sum.splits)

lemma providerPages_failed:
  "fetched ps \<Longrightarrow>
   providerPages h (ps @ Inl e # ps') c = ([], Some (WrapText (Sentinel ErrProviderListFailed) e))"
proof (induction ps arbitrary: c)
  case Nil
  show ?case by simp
next
  case (Cons page ps)
  then show ?case by (cases page) (auto simp: fetched_def)
qed

text \<open>
  C6. In \<^verbatim>\<open>ListModuleVersions\<close> and \<^verbatim>\<open>ListProviderVersions\<close> a key the reverse parser
  rejects changes nothing: the result is the one for the listing without these keys, so
  such a key adds no entry, no error and no panic. When the fetch of a page fails after the
  pages before it were worked through, the call returns no entries, whatever was collected
  from the earlier pages, and the error of the fetch wrapped in \<^verbatim>\<open>ErrModuleListFailed\<close> or
  \<^verbatim>\<open>ErrProviderListFailed\<close>.
\<close>

theorem listings_skip_unparsable_abort_on_page_error:
  "ListModuleVersions h (listingOnly (parsesModule h s) s) w namespace name provider
     = ListModuleVersions h s w namespace name provider \<and>
   ListProviderVersions h (listingOnly (parsesProvider h) s) w namespace name
     = ListProviderVersions h s w namespace name \<and>
   (\<forall>ps e ps' ms.
      ListObjectsV2 s w (bucket s) (modulePathPrefix h (bucketPrefix s) namespace name provider)
        = ps @ Inl e # ps' \<longrightarrow>
      modulePages h s w ps [] = Ret ms None \<longrightarrow>
      ListModuleVersions h s w namespace name provider
        = Ret [] (Some (WrapText (Sentinel ErrModuleListFailed) e))) \<and>
   (\<forall>prefix ps e ps'.
      providerStoragePrefix h (bucketPrefix s) (internalProviderType h) [] namespace name
        = (prefix, None) \<longrightarrow>
      ListObjectsV2 s w (bucket s) (prefix @ ''/'') = ps @ Inl e # ps' \<longrightarrow>
      fetched ps \<longrightarrow>
      ListProviderVersions h s w namespace name
        = ([], Some (WrapText (Sentinel ErrProviderListFailed) e)))"
proof (intro conjI allI impI)
  have "ListObjectsV2 (listingOnly (parsesModule h s) s) w (bucket (listingOnly (parsesModule h s) s))
          (modulePathPrefix h (bucketPrefix (listingOnly (parsesModule h s) s)) namespace name provider)
        = keepKeys (parsesModule h s)
            (ListObjectsV2 s w (bucket s) (modulePathPrefix h (bucketPrefix s) namespace name provider))"
    by (simp add: listingOnly_def)
  then show "ListModuleVersions h (listingOnly (parsesModule h s) s) w namespace name provider
     = ListModuleVersions h s w namespace name provider"
    by (simp add: ListModuleVersions_def modulePages_keepKeys)
next
  obtain prefix perr where
    p: "providerStoragePrefix h (bucketPrefix s) (internalProviderType h) [] namespace name
          = (prefix, perr)"
    by (cases "providerStoragePrefix h (bucketPrefix s) (internalProviderType h) [] namespace name")
  show "ListProviderVersions h (listingOnly (parsesProvider h) s) w namespace name
     = ListProviderVersions h s w namespace name"
    by (cases perr)
       (simp_all add: ListProviderVersions_def listingOnly_def p providerPages_keepKeys)
next
  fix ps e ps' ms
  assume "ListObjectsV2 s w (bucket s) (modulePathPrefix h (bucketPrefix s) namespace name provider)
            = ps @ Inl e # ps'"
    and "modulePages h s w ps [] = Ret ms None"
  then show "ListModuleVersions h s w namespace name provider
               = Ret [] (Some (WrapText (Sentinel ErrModuleListFailed) e))"
    by (simp add: ListModuleVersions_def modulePages_append [of h s w ps])
next
  fix prefix ps e ps'
  assume "providerStoragePrefix h (bucketPrefix s) (internalProviderType h) [] namespace name
            = (prefix, None)"
    and "ListObjectsV2 s w (bucket s) (prefix @ ''/'') = ps @ Inl e # ps'"
    and "fetched ps"
  then show "ListProviderVersions h s w namespace name
               = ([], Some (WrapText (Sentinel ErrProviderListFailed) e))"
    by (simp add: ListProviderVersions_def providerPages_failed)
qed

theorem listings_skip_unparsable_abort_on_page_error_witness:
  "ListModuleVersions h0 (mem ''tar.gz'')
     [(''modules/hashicorp/consul/aws/README'', ''R''),
      (''modules/hashicorp/consul/aws/1.0.0/consul.tar.gz'', ''B'')]
     ''hashicorp'' ''consul'' ''aws''
     = Ret [\<lparr>Namespace = ''hashicorp'', Name = ''consul'', Provider = ''aws'', Version = ''1.0.0'',
             DownloadURL = ''https://registry.s3.test/modules/hashicorp/consul/aws/1.0.0/consul.tar.gz''\<rparr>]
         None \<and>
   ListModuleVersions h0
     ((mem ''tar.gz'')\<lparr>ListObjectsV2 := \<lambda>w b p.
         [Inr [''modules/hashicorp/consul/aws/1.0.0/consul.tar.gz''],
          Inl (OpaqueError ''timeout''), Inr []]\<rparr>)
     [] ''hashicorp'' ''consul'' ''aws''
     = Ret [] (Some (WrapText (Sentinel ErrModuleListFailed) (OpaqueError ''timeout''))) \<and>
   ListProviderVersions h0
     ((mem ''tar.gz'')\<lparr>ListObjectsV2 := \<lambda>w b p.
         [Inr [''providers/hashicorp/aws/terraform-provider-aws_1.0.0_linux_amd64.zip''],
          Inl (OpaqueError ''timeout''), Inr []]\<rparr>)
     [] ''hashicorp'' ''aws''
     = ([], Some (WrapText (Sentinel ErrProviderListFailed) (OpaqueError ''timeout'')))"
proof -
  let ?s = "mem ''tar.gz''"
  let ?key = "''modules/hashicorp/consul/aws/1.0.0/consul.tar.gz''"
  let ?w = "[(''modules/hashicorp/consul/aws/README'', ''R''), (?key, ''B'')]"
  let ?m = "\<lparr>Namespace = ''hashicorp'', Name = ''consul'', Provider = ''aws'', Version = ''1.0.0'',
             DownloadURL = ''https://registry.s3.test/'' @ ?key\<rparr>"
  let ?sm = "?s\<lparr>ListObjectsV2 := \<lambda>w b p. [Inr [?key], Inl (OpaqueError ''timeout''), Inr []]\<rparr>"
  let ?pkey = "''providers/hashicorp/aws/terraform-provider-aws_1.0.0_linux_amd64.zip''"
  let ?sp = "?s\<lparr>ListObjectsV2 := \<lambda>w b p. [Inr [?pkey], Inl (OpaqueError ''timeout''), Inr []]\<rparr>"
  have "ListModuleVersions h0 (listingOnly (parsesModule h0 ?s) ?s) ?w ''hashicorp'' ''consul'' ''aws''
          = Ret [?m] None"
    by (simp add: ListModuleVersions_def listingOnly_def keepKeys_def parsesModule_def
          presignedURL_def instance_defs)
  then have 1: "ListModuleVersions h0 ?s ?w ''hashicorp'' ''consul'' ''aws'' = Ret [?m] None"
    by (simp only: listings_skip_unparsable_abort_on_page_error [THEN conjunct1])
  have pages: "ListObjectsV2 ?sm [] (bucket ?sm)
                 (modulePathPrefix h0 (bucketPrefix ?sm) ''hashicorp'' ''consul'' ''aws'')
               = [Inr [?key]] @ Inl (OpaqueError ''timeout'') # [Inr []]"
    by simp
  have first: "modulePages h0 ?sm [] [Inr [?key]] [] = Ret [?m] None"
    by (simp add: presignedURL_def instance_defs)
  have 2: "ListModuleVersions h0 ?sm [] ''hashicorp'' ''consul'' ''aws''
             = Ret [] (Some (WrapText (Sentinel ErrModuleListFailed) (OpaqueError ''timeout'')))"
    by (rule listings_skip_unparsable_abort_on_page_error
              [THEN conjunct2, THEN conjunct2, THEN conjunct1, rule_format, OF pages first])
  have prefix: "providerStoragePrefix h0 (bucketPrefix ?sp) (internalProviderType h0) []
                  ''hashicorp'' ''aws'' = (''providers/hashicorp/aws'', None)"
    by (simp add: instance_defs)
  have ppages: "ListObjectsV2 ?sp [] (bucket ?sp) (''providers/hashicorp/aws'' @ ''/'')
                  = [Inr [?pkey]] @ Inl (OpaqueError ''timeout'') # [Inr []]"
    by simp
  have pfirst: "fetched [Inr [?pkey]]"
    by (simp add: fetched_def)
  have 3: "ListProviderVersions h0 ?sp [] ''hashicorp'' ''aws''
             = ([], Some (WrapText (Sentinel ErrProviderListFailed) (OpaqueError ''timeout'')))"
    by (rule listings_skip_unparsable_abort_on_page_error
              [THEN conjunct2, THEN conjunct2, THEN conjunct2, rule_format, OF prefix ppages pfirst])
  from 1 2 3 show ?thesis by simp
qed

section \<open>Migration: the dry run\<close>

lemma listed_Cons:
  "listed (Inr ks # ps) = ks @ listed ps" "listed (Inl e # ps) = listed ps" "listed [] = []"
  by (simp_all add: listed_def)

lemma migrateModuleObjects_dry:
  "migrateModuleObjects h s True ks st =
     (None, st\<lparr>logged := logged st @ map (moduleDryRunLine h s) ks\<rparr>)"
  by (induction ks arbitrary: st) (simp_all add: Log_def moduleDryRunLine_def Let_def)

lemma fetchedPart_Cons:
  "fetchedPart (Inr ks # ps) = Inr ks # fetchedPart ps" "fetchedPart (Inl e # ps) = []"
  "fetchedPart [] = []"
  by (simp_all add: fetchedPart_def)

lemma fetched_Cons:
  "fetched (Inr ks # ps) = fetched ps" "fetched (Inl e # ps) = False" "fetched [] = True"
  by (simp_all add: fetched_def)

lemma migrateModulePages_dry_exact:
  "snd (migrateModulePages h s True ps st)
     = st\<lparr>logged := logged st @ map (moduleDryRunLine h s) (listed (fetchedPart ps))\<rparr> \<and>
   (fst (migrateModulePages h s True ps st) = None) = fetched ps"
proof (induction ps arbitrary: st)
  case Nil
  show ?case by (simp add: listed_Cons fetchedPart_Cons fetched_Cons)
next
  case (Cons page ps)
  show ?case
  proof (cases page)
    case (Inl e)
    then show ?thesis by (simp add: listed_Cons fetchedPart_Cons fetched_Cons)
  next
    case (Inr ks)
    let ?st1 = "st\<lparr>logged := logged st @ map (moduleDryRunLine h s) ks\<rparr>"
    have step: "migrateModulePages h s True (Inr ks # ps) st = migrateModulePages h s True ps ?st1"
      by (simp add: migrateModuleObjects_dry)
    show ?thesis
      unfolding Inr step listed_Cons fetchedPart_Cons fetched_Cons
      using Cons.IH [of ?st1] by simp
  qed
qed

lemma migrateProviderObjects_dry_exact:
  "snd (migrateProviderObjects h s True ks st)
     = st\<lparr>logged := logged st @ map (providerDryRunLine h s) (takeWhile (hasTarget h s) ks)\<rparr> \<and>
   (fst (migrateProviderObjects h s True ks st) = None) = list_all (hasTarget h s) ks"
proof (induction ks arbitrary: st)
  case Nil
  show ?case by simp
next
  case (Cons k ks)
  obtain dir derr where d: "providerMigrationTargetPath h (bucketPrefix s) k = (dir, derr)"
    by (cases "providerMigrationTargetPath h (bucketPrefix s) k")
  show ?case
  proof (cases derr)
    case (Some e)
    with d show ?thesis by (simp add: hasTarget_def)
  next
    case None
    let ?st1 = "Log (providerDryRunLine h s k) st"
    have step: "migrateProviderObjects h s True (k # ks) st = migrateProviderObjects h s True ks ?st1"
      using d None by (simp add: Let_def providerDryRunLine_def providerTarget_def)
    have ok: "hasTarget h s k"
      using d None by (simp add: hasTarget_def)
    have tw: "takeWhile (hasTarget h s) (k # ks) = k # takeWhile (hasTarget h s) ks"
      and la: "list_all (hasTarget h s) (k # ks) = list_all (hasTarget h s) ks"
      using ok by simp_all
    show ?thesis
      unfolding step tw la
      using Cons.IH [of ?st1] by (simp add: Log_def)
  qed
qed

lemma takeWhile_append_all:
  "list_all P xs \<Longrightarrow> takeWhile P (xs @ ys) = xs @ takeWhile P ys"
  by (induction xs) simp_all

lemma takeWhile_append_not_all:
  "\<not> list_all P xs \<Longrightarrow> takeWhile P (xs @ ys) = takeWhile P xs"
  by (induction xs) simp_all

lemma migrateProviderPages_dry_exact:
  "snd (migrateProviderPages h s True ps st)
     = st\<lparr>logged := logged st @ map (providerDryRunLine h s)
                                   (takeWhile (hasTarget h s) (listed (fetchedPart ps)))\<rparr> \<and>
   (fst (migrateProviderPages h s True ps st) = None)
     = (fetched ps \<and> list_all (hasTarget h s) (listed ps))"
proof (induction ps arbitrary: st)
  case Nil
  show ?case by (simp add: listed_Cons fetchedPart_Cons fetched_Cons)
next
  case (Cons page ps)
  show ?case
  proof (cases page)
    case (Inl e)
    then show ?thesis by (simp add: listed_Cons fetchedPart_Cons fetched_Cons)
  next
    case (Inr ks)
    obtain r1 st1 where o: "migrateProviderObjects h s True ks st = (r1, st1)"
      by (cases "migrateProviderObjects h s True ks st")
    from migrateProviderObjects_dry_exact [of h s ks st] o
    have st1: "st1 = st\<lparr>logged := logged st @ map (providerDryRunLine h s)
                                          (takeWhile (hasTarget h s) ks)\<rparr>"
      and r1: "(r1 = None) = list_all (hasTarget h s) ks"
      by simp_all
    show ?thesis
    proof (cases r1)
      case None
      with r1 have all: "list_all (hasTarget h s) ks" by simp
      then have tw: "takeWhile (hasTarget h s) ks = ks"
        by (simp add: list_all_iff)
      from None o Inr
      have "migrateProviderPages h s True (page # ps) st = migrateProviderPages h s True ps st1"
        by simp
      with Cons.IH [of st1] show ?thesis
        by (simp add: Inr listed_Cons fetchedPart_Cons fetched_Cons all st1 tw
              takeWhile_append_all)
    next
      case (Some e)
      with r1 have nall: "\<not> list_all (hasTarget h s) ks" by simp
      from Some o Inr
      have "migrateProviderPages h s True (page # ps) st = (Some e, st1)"
        by simp
      then show ?thesis
        by (simp add: Inr listed_Cons fetchedPart_Cons fetched_Cons nall st1
              takeWhile_append_not_all)
    qed
  qed
qed

text \<open>
  C8. With \<^verbatim>\<open>dryRun\<close> set, \<^verbatim>\<open>MigrateModules\<close> and \<^verbatim>\<open>MigrateProviders\<close> issue no
  \<^verbatim>\<open>CopyObject\<close> request and leave the object store as it was, whatever they return, and
  they give the logger one line for every key they reach, in order. For modules these are
  the keys of all pages before the first failed fetch: the line
  \<^verbatim>\<open>skipping due to dry-run\<close> with source and target for a key that is to be migrated,
  the line \<^verbatim>\<open>skipping...\<close> for any other key; the run returns \<^verbatim>\<open>nil\<close> exactly when every
  page was fetched. For providers these are the same keys up to the first one for which
  \<^verbatim>\<open>providerMigrationTargetPath\<close> returns an error, each with the line
  \<^verbatim>\<open>skipping due to dry-run\<close>, source and target; the run returns \<^verbatim>\<open>nil\<close> exactly when every
  page was fetched and every key has a target.
\<close>

theorem dry_run_copies_nothing_logs_every_key:
  "snd (MigrateModules h s w logger True)
     = \<lparr>store = w,
        logged = logger @ map (moduleDryRunLine h s)
                   (listed (fetchedPart (ListObjectsV2 s w (bucket s)
                              (path_Join h [bucketPrefix s, internalModuleType h])))),
        copies = []\<rparr> \<and>
   (fst (MigrateModules h s w logger True) = None)
     = fetched (ListObjectsV2 s w (bucket s) (path_Join h [bucketPrefix s, internalModuleType h])) \<and>
   snd (MigrateProviders h s w logger True)
     = \<lparr>store = w,
        logged = logger @ map (providerDryRunLine h s)
                   (takeWhile (hasTarget h s)
                      (listed (fetchedPart (ListObjectsV2 s w (bucket s)
                                 (path_Join h [bucketPrefix s, internalProviderType h]))))),
        copies = []\<rparr> \<and>
   (fst (MigrateProviders h s w logger True) = None)
     = (fetched (ListObjectsV2 s w (bucket s)
                  (path_Join h [bucketPrefix s, internalProviderType h])) \<and>
        list_all (hasTarget h s)
          (listed (ListObjectsV2 s w (bucket s)
                     (path_Join h [bucketPrefix s, internalProviderType h]))))"
proof (intro conjI)
  let ?pm = "ListObjectsV2 s w (bucket s) (path_Join h [bucketPrefix s, internalModuleType h])"
  let ?st = "\<lparr>store = w, logged = logger, copies = []\<rparr>"
  from migrateModulePages_dry_exact [of h s ?pm ?st]
  show "snd (MigrateModules h s w logger True)
     = \<lparr>store = w,
        logged = logger @ map (moduleDryRunLine h s) (listed (fetchedPart ?pm)),
        copies = []\<rparr>"
    and "(fst (MigrateModules h s w logger True) = None) = fetched ?pm"
    unfolding MigrateModules_def by simp_all
next
  let ?pp = "ListObjectsV2 s w (bucket s) (path_Join h [bucketPrefix s, internalProviderType h])"
  let ?st = "\<lparr>store = w, logged = logger, copies = []\<rparr>"
  from migrateProviderPages_dry_exact [of h s ?pp ?st]
  show "snd (MigrateProviders h s w logger True)
     = \<lparr>store = w,
        logged = logger @ map (providerDryRunLine h s)
                   (takeWhile (hasTarget h s) (listed (fetchedPart ?pp))),
        copies = []\<rparr>"
    and "(fst (MigrateProviders h s w logger True) = None)
     = (fetched ?pp \<and> list_all (hasTarget h s) (listed ?pp))"
    unfolding MigrateProviders_def by simp_all
qed

theorem dry_run_copies_nothing_logs_every_key_witness:
  "MigrateModules h0 (mem ''tar.gz'')
     [(''modules/namespace=hashicorp/name=consul/provider=aws/version=1.0.0/x.tar.gz'', ''B''),
      (''modules/hashicorp/consul/aws/0.9.0/consul.tar.gz'', ''C'')] [] True
     = (None,
        \<lparr>store =
           [(''modules/namespace=hashicorp/name=consul/provider=aws/version=1.0.0/x.tar.gz'', ''B''),
            (''modules/hashicorp/consul/aws/0.9.0/consul.tar.gz'', ''C'')],
         logged =
           [[(''message'', ''skipping due to dry-run''),
             (''source'', ''modules/namespace=hashicorp/name=consul/provider=aws/version=1.0.0/x.tar.gz''),
             (''target'', ''modules/hashicorp/consul/aws/1.0.0/consul.tar.gz'')],
            [(''message'', ''skipping...''),
             (''key'', ''modules/hashicorp/consul/aws/0.9.0/consul.tar.gz'')]],
         copies = []\<rparr>) \<and>
   MigrateProviders h0 (mem ''tar.gz'')
     [(''providers/namespace=hashicorp/name=aws/terraform-provider-aws_1.0.0_linux_amd64.zip'', ''B'')]
     [] True
     = (None,
        \<lparr>store =
           [(''providers/namespace=hashicorp/name=aws/terraform-provider-aws_1.0.0_linux_amd64.zip'', ''B'')],
         logged =
           [[(''message'', ''skipping due to dry-run''),
             (''source'', ''providers/namespace=hashicorp/name=aws/terraform-provider-aws_1.0.0_linux_amd64.zip''),
             (''target'', ''providers/hashicorp/aws/terraform-provider-aws_1.0.0_linux_amd64.zip'')]],
         copies = []\<rparr>)"
proof -
  let ?s = "mem ''tar.gz''"
  let ?wm = "[(''modules/namespace=hashicorp/name=consul/provider=aws/version=1.0.0/x.tar.gz'', ''B''),
              (''modules/hashicorp/consul/aws/0.9.0/consul.tar.gz'', ''C'')]"
  let ?wp = "[(''providers/namespace=hashicorp/name=aws/terraform-provider-aws_1.0.0_linux_amd64.zip'', ''B'')]"
  note dry = dry_run_copies_nothing_logs_every_key
  from dry [where h = h0 and s = ?s and w = ?wm and logger = "[]", THEN conjunct1]
  have 1: "snd (MigrateModules h0 ?s ?wm [] True)
     = \<lparr>store = ?wm,
        logged =
           [[(''message'', ''skipping due to dry-run''),
             (''source'', ''modules/namespace=hashicorp/name=consul/provider=aws/version=1.0.0/x.tar.gz''),
             (''target'', ''modules/hashicorp/consul/aws/1.0.0/consul.tar.gz'')],
            [(''message'', ''skipping...''),
             (''key'', ''modules/hashicorp/consul/aws/0.9.0/consul.tar.gz'')]],
        copies = []\<rparr>"
    by (simp add: moduleDryRunLine_def listed_def fetchedPart_def instance_defs)
  from dry [where h = h0 and s = ?s and w = ?wm and logger = "[]", THEN conjunct2, THEN conjunct1]
  have 2: "fst (MigrateModules h0 ?s ?wm [] True) = None"
    by (simp add: fetched_def instance_defs)
  from dry [where h = h0 and s = ?s and w = ?wp and logger = "[]", THEN conjunct2, THEN conjunct2, THEN conjunct1]
  have 3: "snd (MigrateProviders h0 ?s ?wp [] True)
     = \<lparr>store = ?wp,
        logged =
           [[(''message'', ''skipping due to dry-run''),
             (''source'', ''providers/namespace=hashicorp/name=aws/terraform-provider-aws_1.0.0_linux_amd64.zip''),
             (''target'', ''providers/hashicorp/aws/terraform-provider-aws_1.0.0_linux_amd64.zip'')]],
        copies = []\<rparr>"
    by (simp add: providerDryRunLine_def providerTarget_def hasTarget_def listed_def
          fetchedPart_def instance_defs)
  from dry [where h = h0 and s = ?s and w = ?wp and logger = "[]", THEN conjunct2, THEN conjunct2, THEN conjunct2]
  have 4: "fst (MigrateProviders h0 ?s ?wp [] True) = None"
    by (simp add: hasTarget_def listed_def fetched_def instance_defs)
  from 1 2 3 4 show ?thesis by (simp add: prod_eq_iff)
qed

section \<open>Migration: the live run\<close>

lemma migrateModuleObjects_live:
  "migrateModuleObjects h s False ks st = (None, st') \<Longrightarrow>
   copies st' = copies st @ map (moduleCopy h s) (filter (isUnmigratedModule h (bucketPrefix s)) ks)"
proof (induction ks arbitrary: st)
  case Nil
  then show ?case by simp
next
  case (Cons k ks)
  show ?case
  proof (cases "isUnmigratedModule h (bucketPrefix s) k")
    case False
    with Cons.prems Cons.IH [of "Log [(''message'', ''skipping...''), (''key'', k)] st"]
    show ?thesis by (simp add: Log_def)
  next
    case True
    obtain r1 w1 where c: "CopyObject s (store st) (bucket s)
        (url_PathEscape h (path_Join h [bucket s, k]))
        (migrationTargetPath h (bucketPrefix s) (moduleArchiveFormat s) k) = (r1, w1)"
      by (cases "CopyObject s (store st) (bucket s)
        (url_PathEscape h (path_Join h [bucket s, k]))
        (migrationTargetPath h (bucketPrefix s) (moduleArchiveFormat s) k)")
    show ?thesis
    proof (cases r1)
      case None
      with Cons.prems True c Cons.IH
      show ?thesis by (auto simp: Let_def Log_def moduleCopy_def)
    next
      case (Some e)
      with Cons.prems True c show ?thesis by (simp add: Let_def)
    qed
  qed
qed

lemma migrateModuleObjects_live_subset:
  "migrateModuleObjects h s False ks st = (r, st') \<Longrightarrow>
   set (copies st') \<subseteq> set (copies st)
       \<union> moduleCopy h s ` {k \<in> set ks. isUnmigratedModule h (bucketPrefix s) k}"
proof (induction ks arbitrary: st)
  case Nil
  then show ?case by simp
next
  case (Cons k ks)
  show ?case
  proof (cases "isUnmigratedModule h (bucketPrefix s) k")
    case False
    with Cons.prems Cons.IH [of "Log [(''message'', ''skipping...''), (''key'', k)] st"]
    show ?thesis by (auto simp: Log_def)
  next
    case True
    obtain r1 w1 where c: "CopyObject s (store st) (bucket s)
        (url_PathEscape h (path_Join h [bucket s, k]))
        (migrationTargetPath h (bucketPrefix s) (moduleArchiveFormat s) k) = (r1, w1)"
      by (cases "CopyObject s (store st) (bucket s)
        (url_PathEscape h (path_Join h [bucket s, k]))
        (migrationTargetPath h (bucketPrefix s) (moduleArchiveFormat s) k)")
    show ?thesis
    proof (cases r1)
      case None
      let ?st1 = "Log [(''message'', ''copied module''), (''source'', k),
                      (''target'', migrationTargetPath h (bucketPrefix s) (moduleArchiveFormat s) k)]
                    (st\<lparr>store := w1, copies := copies st @ [moduleCopy h s k]\<rparr>)"
      from Cons.prems True c None
      have "migrateModuleObjects h s False ks ?st1 = (r, st')"
        by (simp add: Let_def moduleCopy_def)
      from Cons.IH [OF this] True show ?thesis by (auto simp: Log_def)
    next
      case (Some e)
      with Cons.prems True c show ?thesis by (auto simp: Let_def moduleCopy_def)
    qed
  qed
qed

lemma migrateModulePages_live:
  "migrateModulePages h s False ps st = (None, st') \<Longrightarrow>
   copies st' = copies st
      @ map (moduleCopy h s) (filter (isUnmigratedModule h (bucketPrefix s)) (listed ps))"
proof (induction ps arbitrary: st)
  case Nil
  then show ?case by (simp add: listed_def)
next
  case (Cons page ps)
  show ?case
  proof (cases page)
    case (Inl e)
    with Cons.prems show ?thesis by simp
  next
    case (Inr ks)
    obtain r1 st1 where o: "migrateModuleObjects h s False ks st = (r1, st1)"
      by (cases "migrateModuleObjects h s False ks st")
    show ?thesis
    proof (cases r1)
      case None
      with Cons.prems Inr o have "migrateModulePages h s False ps st1 = (None, st')" by simp
      from Cons.IH [OF this] migrateModuleObjects_live [OF o [unfolded None]] Inr
      show ?thesis by (simp add: listed_def)
    next
      case (Some e)
      with Cons.prems Inr o show ?thesis by simp
    qed
  qed
qed

lemma migrateModulePages_live_subset:
  "migrateModulePages h s False ps st = (r, st') \<Longrightarrow>
   set (copies st') \<subseteq> set (copies st)
       \<union> moduleCopy h s ` {k \<in> set (listed ps). isUnmigratedModule h (bucketPrefix s) k}"
proof (induction ps arbitrary: st)
  case Nil
  then show ?case by simp
next
  case (Cons page ps)
  show ?case
  proof (cases page)
    case (Inl e)
    with Cons.prems show ?thesis by auto
  next
    case (Inr ks)
    obtain r1 st1 where o: "migrateModuleObjects h s False ks st = (r1, st1)"
      by (cases "migrateModuleObjects h s False ks st")
    note sub1 = migrateModuleObjects_live_subset [OF o]
    show ?thesis
    proof (cases r1)
      case None
      with Cons.prems Inr o have "migrateModulePages h s False ps st1 = (r, st')" by simp
      from Cons.IH [OF this] sub1 show ?thesis
        unfolding Inr listed_Cons by auto
    next
      case (Some e)
      with Cons.prems Inr o have "st' = st1" by simp
      with sub1 show ?thesis
        unfolding Inr listed_Cons by auto
    qed
  qed
qed

lemma migrateProviderObjects_live:
  "migrateProviderObjects h s False ks st = (None, st') \<Longrightarrow>
   copies st' = copies st @ map (providerCopy h s) ks"
proof (induction ks arbitrary: st)
  case Nil
  then show ?case by simp
next
  case (Cons k ks)
  obtain dir derr where d: "providerMigrationTargetPath h (bucketPrefix s) k = (dir, derr)"
    by (cases "providerMigrationTargetPath h (bucketPrefix s) k")
  show ?case
  proof (cases derr)
    case (Some e)
    with Cons.prems d show ?thesis by simp
  next
    case None
    obtain r1 w1 where c: "CopyObject s (store st) (bucket s)
        (url_PathEscape h (path_Join h [bucket s, k]))
        (path_Join h [dir, path_Base h k]) = (r1, w1)"
      by (cases "CopyObject s (store st) (bucket s)
        (url_PathEscape h (path_Join h [bucket s, k]))
        (path_Join h [dir, path_Base h k])")
    show ?thesis
    proof (cases r1)
      case None
      with Cons.prems d \<open>derr = None\<close> c Cons.IH
      show ?thesis by (auto simp: Let_def Log_def providerCopy_def providerTarget_def)
    next
      case (Some e)
      with Cons.prems d \<open>derr = None\<close> c show ?thesis by (simp add: Let_def)
    qed
  qed
qed

lemma migrateProviderPages_live:
  "migrateProviderPages h s False ps st = (None, st') \<Longrightarrow>
   copies st' = copies st @ map (providerCopy h s) (listed ps)"
proof (induction ps arbitrary: st)
  case Nil
  then show ?case by (simp add: listed_def)
next
  case (Cons page ps)
  show ?case
  proof (cases page)
    case (Inl e)
    with Cons.prems show ?thesis by simp
  next
    case (Inr ks)
    obtain r1 st1 where o: "migrateProviderObjects h s False ks st = (r1, st1)"
      by (cases "migrateProviderObjects h s False ks st")
    show ?thesis
    proof (cases r1)
      case None
      with Cons.prems Inr o have "migrateProviderPages h s False ps st1 = (None, st')" by simp
      from Cons.IH [OF this] migrateProviderObjects_live [OF o [unfolded None]] Inr
      show ?thesis by (simp add: listed_def)
    next
      case (Some e)
      with Cons.prems Inr o show ?thesis by simp
    qed
  qed
qed

text \<open>
  The claim C3 as it is stated, at an input: a store with one legacy module key. The first
  live run of \<^verbatim>\<open>MigrateModules\<close> returns \<^verbatim>\<open>nil\<close> and leaves the legacy key beside its
  copy. The second run, on that store, lists both keys, skips the copy and copies the
  legacy key once more: one \<^verbatim>\<open>CopyObject\<close> request, not none.
\<close>

theorem second_migration_copies_again:
  "fst (MigrateModules h0 (mem ''tar.gz'')
          [(''modules/namespace=hashicorp/name=consul/provider=aws/version=1.0.0/x.tar.gz'', ''B'')]
          [] False) = None \<and>
   store (snd (MigrateModules h0 (mem ''tar.gz'')
          [(''modules/namespace=hashicorp/name=consul/provider=aws/version=1.0.0/x.tar.gz'', ''B'')]
          [] False))
     = [(''modules/namespace=hashicorp/name=consul/provider=aws/version=1.0.0/x.tar.gz'', ''B''),
        (''modules/hashicorp/consul/aws/1.0.0/consul.tar.gz'', ''B'')] \<and>
   MigrateModules h0 (mem ''tar.gz'')
     [(''modules/namespace=hashicorp/name=consul/provider=aws/version=1.0.0/x.tar.gz'', ''B''),
      (''modules/hashicorp/consul/aws/1.0.0/consul.tar.gz'', ''B'')] [] False
     = (None,
        \<lparr>store =
           [(''modules/namespace=hashicorp/name=consul/provider=aws/version=1.0.0/x.tar.gz'', ''B''),
            (''modules/hashicorp/consul/aws/1.0.0/consul.tar.gz'', ''B'')],
         logged =
           [[(''message'', ''copied module''),
             (''source'', ''modules/namespace=hashicorp/name=consul/provider=aws/version=1.0.0/x.tar.gz''),
             (''target'', ''modules/hashicorp/consul/aws/1.0.0/consul.tar.gz'')],
            [(''message'', ''skipping...''),
             (''key'', ''modules/hashicorp/consul/aws/1.0.0/consul.tar.gz'')]],
         copies =
           [(''registry'',
             ''registry%2Fmodules%2Fnamespace=hashicorp%2Fname=consul%2Fprovider=aws%2Fversion=1.0.0%2Fx.tar.gz'',
             ''modules/hashicorp/consul/aws/1.0.0/consul.tar.gz'')]\<rparr>)"
  by (simp add: MigrateModules_def Log_def Let_def instance_defs)

lemma migrateModuleObjects_live_log:
  "migrateModuleObjects h s False ks st = (None, st') \<Longrightarrow>
   logged st' = logged st @ map (moduleLiveLine h s) ks"
proof (induction ks arbitrary: st)
  case Nil
  then show ?case by simp
next
  case (Cons k ks)
  show ?case
  proof (cases "isUnmigratedModule h (bucketPrefix s) k")
    case False
    with Cons.prems Cons.IH [of "Log [(''message'', ''skipping...''), (''key'', k)] st"]
    show ?thesis by (simp add: Log_def moduleLiveLine_def)
  next
    case True
    obtain r1 w1 where c: "CopyObject s (store st) (bucket s)
        (url_PathEscape h (path_Join h [bucket s, k]))
        (migrationTargetPath h (bucketPrefix s) (moduleArchiveFormat s) k) = (r1, w1)"
      by (cases "CopyObject s (store st) (bucket s)
        (url_PathEscape h (path_Join h [bucket s, k]))
        (migrationTargetPath h (bucketPrefix s) (moduleArchiveFormat s) k)")
    show ?thesis
    proof (cases r1)
      case None
      with Cons.prems True c Cons.IH
      show ?thesis by (auto simp: Let_def Log_def moduleLiveLine_def)
    next
      case (Some e)
      with Cons.prems True c show ?thesis by (simp add: Let_def)
    qed
  qed
qed

lemma migrateModulePages_live_log:
  "migrateModulePages h s False ps st = (None, st') \<Longrightarrow>
   logged st' = logged st @ map (moduleLiveLine h s) (listed ps)"
proof (induction ps arbitrary: st)
  case Nil
  then show ?case by (simp add: listed_def)
next
  case (Cons page ps)
  show ?case
  proof (cases page)
    case (Inl e)
    with Cons.prems show ?thesis by simp
  next
    case (Inr ks)
    obtain r1 st1 where o: "migrateModuleObjects h s False ks st = (r1, st1)"
      by (cases "migrateModuleObjects h s False ks st")
    show ?thesis
    proof (cases r1)
      case None
      with Cons.prems Inr o have "migrateModulePages h s False ps st1 = (None, st')" by simp
      from Cons.IH [OF this] migrateModuleObjects_live_log [OF o [unfolded None]] Inr
      show ?thesis by (simp add: listed_def)
    next
      case (Some e)
      with Cons.prems Inr o show ?thesis by simp
    qed
  qed
qed

text \<open>
  C3, amended. In \<^verbatim>\<open>MigrateModules\<close> a copy is issued only for a listed key that
  \<^verbatim>\<open>isUnmigratedModule\<close> accepts. A live run that returns \<^verbatim>\<open>nil\<close> has issued one copy for
  each such key of the listing, in order, and has given the logger one line for every key
  of the listing, in order: \<^verbatim>\<open>copied module\<close> with source and target for a key it
  copied, \<^verbatim>\<open>skipping...\<close> for any other key. Whether a key is copied does not depend on an
  earlier run: when two live runs return \<^verbatim>\<open>nil\<close> and the listing of the second still
  holds the keys of the listing of the first, every copy request of the first run is
  issued again by the second.
\<close>

theorem migrations_copy_every_accepted_key:
  "set (copies (snd (MigrateModules h s w logger dryRun)))
     \<subseteq> moduleCopy h s `
         {k \<in> set (listed (ListObjectsV2 s w (bucket s)
                             (path_Join h [bucketPrefix s, internalModuleType h]))).
            isUnmigratedModule h (bucketPrefix s) k} \<and>
   (fst (MigrateModules h s w logger False) = None \<longrightarrow>
      copies (snd (MigrateModules h s w logger False)) =
        map (moduleCopy h s)
          (filter (isUnmigratedModule h (bucketPrefix s))
             (listed (ListObjectsV2 s w (bucket s)
                        (path_Join h [bucketPrefix s, internalModuleType h])))) \<and>
      logged (snd (MigrateModules h s w logger False)) =
        logger @ map (moduleLiveLine h s)
                   (listed (ListObjectsV2 s w (bucket s)
                              (path_Join h [bucketPrefix s, internalModuleType h])))) \<and>
   (fst (MigrateModules h s w logger False) = None \<longrightarrow>
    fst (MigrateModules h s w' logger' False) = None \<longrightarrow>
    set (listed (ListObjectsV2 s w (bucket s)
                   (path_Join h [bucketPrefix s, internalModuleType h])))
      \<subseteq> set (listed (ListObjectsV2 s w' (bucket s)
                       (path_Join h [bucketPrefix s, internalModuleType h]))) \<longrightarrow>
    set (copies (snd (MigrateModules h s w logger False)))
      \<subseteq> set (copies (snd (MigrateModules h s w' logger' False))))"
proof -
  let ?L = "\<lambda>w. listed (ListObjectsV2 s w (bucket s)
                          (path_Join h [bucketPrefix s, internalModuleType h]))"
  let ?P = "isUnmigratedModule h (bucketPrefix s)"
  have exact: "copies (snd (MigrateModules h s v lg False)) = map (moduleCopy h s) (filter ?P (?L v))
      \<and> logged (snd (MigrateModules h s v lg False)) = lg @ map (moduleLiveLine h s) (?L v)"
    if "fst (MigrateModules h s v lg False) = None" for v lg
  proof -
    from that obtain st where m: "MigrateModules h s v lg False = (None, st)"
      by (cases "MigrateModules h s v lg False") simp
    then have p: "migrateModulePages h s False
                    (ListObjectsV2 s v (bucket s) (path_Join h [bucketPrefix s, internalModuleType h]))
                    \<lparr>store = v, logged = lg, copies = []\<rparr> = (None, st)"
      by (simp add: MigrateModules_def)
    from migrateModulePages_live [OF p] migrateModulePages_live_log [OF p]
    show ?thesis by (simp add: m)
  qed
  have sub: "set (copies (snd (MigrateModules h s w logger dryRun)))
     \<subseteq> moduleCopy h s ` {k \<in> set (?L w). ?P k}"
  proof (cases dryRun)
    case True
    have "copies (snd (MigrateModules h s w logger True)) = []"
      unfolding MigrateModules_def
      by (simp add: migrateModulePages_dry_exact [THEN conjunct1])
    with True show ?thesis by simp
  next
    case False
    obtain r st where m: "MigrateModules h s w logger dryRun = (r, st)"
      by (cases "MigrateModules h s w logger dryRun")
    with False show ?thesis
      unfolding MigrateModules_def by (auto dest!: migrateModulePages_live_subset)
  qed
  have again: "set (copies (snd (MigrateModules h s w logger False)))
      \<subseteq> set (copies (snd (MigrateModules h s w' logger' False)))"
    if a: "fst (MigrateModules h s w logger False) = None"
      and b: "fst (MigrateModules h s w' logger' False) = None"
      and c: "set (?L w) \<subseteq> set (?L w')"
  proof -
    from exact [OF a] exact [OF b] c show ?thesis by auto
  qed
  from sub exact again show ?thesis by blast
qed

theorem migrations_copy_every_accepted_key_witness:
  "copies (snd (MigrateModules h0 (mem ''tar.gz'')
     [(''modules/hashicorp/consul/aws/0.9.0/consul.tar.gz'', ''A''),
      (''modules/namespace=hashicorp/name=consul/provider=aws/version=1.0.0/x.tar.gz'', ''B'')]
     [] False))
     = [(''registry'',
         ''registry%2Fmodules%2Fnamespace=hashicorp%2Fname=consul%2Fprovider=aws%2Fversion=1.0.0%2Fx.tar.gz'',
         ''modules/hashicorp/consul/aws/1.0.0/consul.tar.gz'')] \<and>
   logged (snd (MigrateModules h0 (mem ''tar.gz'')
     [(''modules/hashicorp/consul/aws/0.9.0/consul.tar.gz'', ''A''),
      (''modules/namespace=hashicorp/name=consul/provider=aws/version=1.0.0/x.tar.gz'', ''B'')]
     [] False))
     = [[(''message'', ''skipping...''),
         (''key'', ''modules/hashicorp/consul/aws/0.9.0/consul.tar.gz'')],
        [(''message'', ''copied module''),
         (''source'', ''modules/namespace=hashicorp/name=consul/provider=aws/version=1.0.0/x.tar.gz''),
         (''target'', ''modules/hashicorp/consul/aws/1.0.0/consul.tar.gz'')]] \<and>
   (''registry'',
    ''registry%2Fmodules%2Fnamespace=hashicorp%2Fname=consul%2Fprovider=aws%2Fversion=1.0.0%2Fx.tar.gz'',
    ''modules/hashicorp/consul/aws/1.0.0/consul.tar.gz'')
     \<in> set (copies (snd (MigrateModules h0 (mem ''tar.gz'')
          [(''modules/hashicorp/consul/aws/0.9.0/consul.tar.gz'', ''A''),
           (''modules/namespace=hashicorp/name=consul/provider=aws/version=1.0.0/x.tar.gz'', ''B''),
           (''modules/hashicorp/consul/aws/1.0.0/consul.tar.gz'', ''B'')]
          [] False)))"
proof -
  let ?s = "mem ''tar.gz''"
  let ?w = "[(''modules/hashicorp/consul/aws/0.9.0/consul.tar.gz'', ''A''),
      (''modules/namespace=hashicorp/name=consul/provider=aws/version=1.0.0/x.tar.gz'', ''B'')]"
  let ?w' = "[(''modules/hashicorp/consul/aws/0.9.0/consul.tar.gz'', ''A''),
      (''modules/namespace=hashicorp/name=consul/provider=aws/version=1.0.0/x.tar.gz'', ''B''),
      (''modules/hashicorp/consul/aws/1.0.0/consul.tar.gz'', ''B'')]"
  let ?c = "(''registry'',
    ''registry%2Fmodules%2Fnamespace=hashicorp%2Fname=consul%2Fprovider=aws%2Fversion=1.0.0%2Fx.tar.gz'',
    ''modules/hashicorp/consul/aws/1.0.0/consul.tar.gz'')"
  note live = migrations_copy_every_accepted_key
                [where h = h0 and s = ?s and w = ?w and logger = "[]" and w' = ?w' and logger' = "[]"]
  have first: "fst (MigrateModules h0 ?s ?w [] False) = None"
    by (simp add: MigrateModules_def Log_def Let_def instance_defs)
  have second: "fst (MigrateModules h0 ?s ?w' [] False) = None"
    by (simp add: MigrateModules_def Log_def Let_def instance_defs)
  have still: "set (listed (ListObjectsV2 ?s ?w (bucket ?s)
                             (path_Join h0 [bucketPrefix ?s, internalModuleType h0])))
      \<subseteq> set (listed (ListObjectsV2 ?s ?w' (bucket ?s)
                       (path_Join h0 [bucketPrefix ?s, internalModuleType h0])))"
    by (simp add: listed_def instance_defs)
  from live [THEN conjunct2, THEN conjunct1, rule_format, OF first]
  have 1: "copies (snd (MigrateModules h0 ?s ?w [] False)) = [?c]"
    and 2: "logged (snd (MigrateModules h0 ?s ?w [] False))
     = [[(''message'', ''skipping...''),
         (''key'', ''modules/hashicorp/consul/aws/0.9.0/consul.tar.gz'')],
        [(''message'', ''copied module''),
         (''source'', ''modules/namespace=hashicorp/name=consul/provider=aws/version=1.0.0/x.tar.gz''),
         (''target'', ''modules/hashicorp/consul/aws/1.0.0/consul.tar.gz'')]]"
    by (simp_all add: moduleCopy_def moduleLiveLine_def listed_def instance_defs)
  from live [THEN conjunct2, THEN conjunct2, rule_format, OF first second still] 1
  have 3: "?c \<in> set (copies (snd (MigrateModules h0 ?s ?w' [] False)))"
    by simp
  from 1 2 3 show ?thesis by simp
qed

text \<open>
  \<^verbatim>\<open>MigrateProviders\<close> has no test like the one \<^verbatim>\<open>MigrateModules\<close> makes with
  \<^verbatim>\<open>isUnmigratedModule\<close>: a live run that returns \<^verbatim>\<open>nil\<close> has issued one copy for every
  key of the listing, in order.
\<close>

theorem MigrateProviders_copies_every_listed_key:
  "fst (MigrateProviders h s w logger False) = None \<longrightarrow>
   copies (snd (MigrateProviders h s w logger False)) =
     map (providerCopy h s)
       (listed (ListObjectsV2 s w (bucket s)
                  (path_Join h [bucketPrefix s, internalProviderType h])))"
proof
  assume "fst (MigrateProviders h s w logger False) = None"
  then obtain st where "MigrateProviders h s w logger False = (None, st)"
    by (cases "MigrateProviders h s w logger False") simp
  then show "copies (snd (MigrateProviders h s w logger False)) =
        map (providerCopy h s)
          (listed (ListObjectsV2 s w (bucket s)
                     (path_Join h [bucketPrefix s, internalProviderType h])))"
    unfolding MigrateProviders_def by (auto dest!: migrateProviderPages_live)
qed

theorem MigrateProviders_copies_every_listed_key_witness:
  "copies (snd (MigrateProviders h0 (mem ''tar.gz'')
     [(''providers/namespace=hashicorp/name=aws/terraform-provider-aws_1.0.0_linux_amd64.zip'', ''B'')]
     [] False))
     = [(''registry'',
         ''registry%2Fproviders%2Fnamespace=hashicorp%2Fname=aws%2Fterraform-provider-aws_1.0.0_linux_amd64.zip'',
         ''providers/hashicorp/aws/terraform-provider-aws_1.0.0_linux_amd64.zip'')]"
proof -
  let ?s = "mem ''tar.gz''"
  let ?wp = "[(''providers/namespace=hashicorp/name=aws/terraform-provider-aws_1.0.0_linux_amd64.zip'', ''B'')]"
  have fp: "fst (MigrateProviders h0 ?s ?wp [] False) = None"
    by (simp add: MigrateProviders_def Log_def Let_def instance_defs)
  from MigrateProviders_copies_every_listed_key [rule_format, OF fp]
  show ?thesis
    by (simp add: providerCopy_def providerTarget_def listed_def instance_defs)
qed

section \<open>Which errors a caller can recognise\<close>

text \<open>
  C4, at an input. The claim is that every not-found and already-exists result is a value
  a caller can recognise by its type. On a store without provider objects
  \<^verbatim>\<open>ListProviderVersions\<close> returns a value made by \<^verbatim>\<open>fmt.Errorf\<close> from a text: it has no
  error variable of the package and no error of the SDK on its chain of causes, so a
  caller can recognise it by its text only. \<^verbatim>\<open>GetModule\<close> on the same store returns the
  error variable \<^verbatim>\<open>ErrModuleNotFound\<close>.
\<close>

theorem empty_provider_listing_error_is_untyped:
  "ListProviderVersions h0 (mem ''tar.gz'') [] ''hashicorp'' ''aws''
     = ([], Some (ErrorString ''no provider versions found for hashicorp/aws'')) \<and>
   sentinel_of (ErrorString ''no provider versions found for hashicorp/aws'') = None \<and>
   as_ResponseError (ErrorString ''no provider versions found for hashicorp/aws'') = None \<and>
   GetModule h0 (mem ''tar.gz'') [] ''hashicorp'' ''consul'' ''aws'' ''1.0.0''
     = Ret emptyModule (Some (Sentinel ErrModuleNotFound)) \<and>
   sentinel_of (Sentinel ErrModuleNotFound) = Some ErrModuleNotFound"
  by (simp add: ListProviderVersions_def GetModule_cases Let_def instance_defs)

text \<open>
  The results a caller can recognise. The not-found result of \<^verbatim>\<open>GetModule\<close> is the error
  variable \<^verbatim>\<open>ErrModuleNotFound\<close>; the already-exists result of \<^verbatim>\<open>UploadModule\<close> wraps
  \<^verbatim>\<open>ErrModuleAlreadyExists\<close>; the one of \<^verbatim>\<open>UploadProviderReleaseFiles\<close> is
  \<^verbatim>\<open>ErrProviderAlreadyExists\<close>: \<^verbatim>\<open>errors.Is\<close> finds each. The error of
  \<^verbatim>\<open>ListProviderVersions\<close> for a listing that gives no version is a value made from its
  text, with no error variable on its chain. \<^verbatim>\<open>SigningKeys\<close> returns the error of the
  download wrapped twice, and the wrapping keeps what \<^verbatim>\<open>errors.Is\<close> and \<^verbatim>\<open>errors.As\<close> find
  on the chain of that error: a missing object stays recognisable by the response error
  of the SDK.
\<close>

theorem typed_and_untyped_outcomes:
  "(\<forall>e. HeadObject s w (bucket s)
          (modulePath h (bucketPrefix s) namespace name provider version
             (moduleArchiveFormat s)) = Some e \<longrightarrow>
        as_ResponseError e = Some 404 \<longrightarrow>
        GetModule h s w namespace name provider version
          = Ret emptyModule (Some (Sentinel ErrModuleNotFound))) \<and>
   (\<forall>m. namespace \<noteq> [] \<longrightarrow> name \<noteq> [] \<longrightarrow> provider \<noteq> [] \<longrightarrow> version \<noteq> [] \<longrightarrow>
        GetModule h s w namespace name provider version = Ret m None \<longrightarrow>
        (\<exists>e. fst (UploadModule h s w namespace name provider version body)
                = Ret emptyModule (Some e) \<and>
             sentinel_of e = Some ErrModuleAlreadyExists)) \<and>
   (\<forall>prefix. namespace \<noteq> [] \<longrightarrow> name \<noteq> [] \<longrightarrow> filename \<noteq> [] \<longrightarrow>
        providerStoragePrefix h (bucketPrefix s) (internalProviderType h) [] namespace name
          = (prefix, None) \<longrightarrow>
        HeadObject s w (bucket s) (filepath_Join h [prefix, filename]) = None \<longrightarrow>
        UploadProviderReleaseFiles h s w namespace name filename file
          = (Some (Sentinel ErrProviderAlreadyExists), w)) \<and>
   (\<forall>prefix collection.
        providerStoragePrefix h (bucketPrefix s) (internalProviderType h) [] namespace name
          = (prefix, None) \<longrightarrow>
        providerPages h (ListObjectsV2 s w (bucket s) (prefix @ ''/'')) [] = (collection, None) \<longrightarrow>
        Collection_List h collection = [] \<longrightarrow>
        ListProviderVersions h s w namespace name
          = ([], Some (ErrorString (''no provider versions found for '' @ namespace @ ''/'' @ name)))
        \<and> sentinel_of (ErrorString (''no provider versions found for '' @ namespace @ ''/''
                                     @ name)) = None) \<and>
   (\<forall>buf e. namespace \<noteq> [] \<longrightarrow>
        Download s w (bucket s) (signingKeysPath h (bucketPrefix s) namespace) = (buf, Some e) \<longrightarrow>
        SigningKeys h s w namespace
          = (None, Some (ErrorfW (''failed to download signing_keys.json for namespace ''
                                  @ namespace @ '': '')
                           (Wrap e (''failed to download: ''
                                    @ signingKeysPath h (bucketPrefix s) namespace)))) \<and>
        sentinel_of (ErrorfW (''failed to download signing_keys.json for namespace ''
                                  @ namespace @ '': '')
                           (Wrap e (''failed to download: ''
                                    @ signingKeysPath h (bucketPrefix s) namespace)))
          = sentinel_of e \<and>
        as_ResponseError (ErrorfW (''failed to download signing_keys.json for namespace ''
                                  @ namespace @ '': '')
                           (Wrap e (''failed to download: ''
                                    @ signingKeysPath h (bucketPrefix s) namespace)))
          = as_ResponseError e)"
proof (intro conjI allI impI)
  fix e
  assume "HeadObject s w (bucket s)
          (modulePath h (bucketPrefix s) namespace name provider version
             (moduleArchiveFormat s)) = Some e" and "as_ResponseError e = Some 404"
  then show "GetModule h s w namespace name provider version
          = Ret emptyModule (Some (Sentinel ErrModuleNotFound))"
    by (simp add: GetModule_cases)
next
  fix m
  assume "namespace \<noteq> []" "name \<noteq> []" "provider \<noteq> []" "version \<noteq> []"
    and "GetModule h s w namespace name provider version = Ret m None"
  then show "\<exists>e. fst (UploadModule h s w namespace name provider version body)
                = Ret emptyModule (Some e) \<and>
             sentinel_of e = Some ErrModuleAlreadyExists"
    by (simp add: UploadModule_def Let_def)
next
  fix prefix
  assume "namespace \<noteq> []" "name \<noteq> []" "filename \<noteq> []"
    and "providerStoragePrefix h (bucketPrefix s) (internalProviderType h) [] namespace name
          = (prefix, None)"
    and "HeadObject s w (bucket s) (filepath_Join h [prefix, filename]) = None"
  then show "UploadProviderReleaseFiles h s w namespace name filename file
          = (Some (Sentinel ErrProviderAlreadyExists), w)"
    by (simp add: UploadProviderReleaseFiles_def objectExists_cases Let_def)
next
  fix prefix collection
  assume "providerStoragePrefix h (bucketPrefix s) (internalProviderType h) [] namespace name
          = (prefix, None)"
    and "providerPages h (ListObjectsV2 s w (bucket s) (prefix @ ''/'')) [] = (collection, None)"
    and "Collection_List h collection = []"
  then show "ListProviderVersions h s w namespace name
          = ([], Some (ErrorString (''no provider versions found for '' @ namespace @ ''/'' @ name)))"
    by (simp add: ListProviderVersions_def)
next
  show "sentinel_of (ErrorString (''no provider versions found for '' @ namespace @ ''/''
                                     @ name)) = None"
    by simp
next
  fix buf e
  assume "namespace \<noteq> []"
    and "Download s w (bucket s) (signingKeysPath h (bucketPrefix s) namespace) = (buf, Some e)"
  then show "SigningKeys h s w namespace
          = (None, Some (ErrorfW (''failed to download signing_keys.json for namespace ''
                                  @ namespace @ '': '')
                           (Wrap e (''failed to download: ''
                                    @ signingKeysPath h (bucketPrefix s) namespace))))"
    by (simp add: SigningKeys_def download_def)
next
  fix e
  show "sentinel_of (ErrorfW (''failed to download signing_keys.json for namespace ''
                                  @ namespace @ '': '')
                           (Wrap e (''failed to download: ''
                                    @ signingKeysPath h (bucketPrefix s) namespace)))
          = sentinel_of e"
    by simp
next
  fix e
  show "as_ResponseError (ErrorfW (''failed to download signing_keys.json for namespace ''
                                  @ namespace @ '': '')
                           (Wrap e (''failed to download: ''
                                    @ signingKeysPath h (bucketPrefix s) namespace)))
          = as_ResponseError e"
    by simp
qed


theorem typed_and_untyped_outcomes_witness:
  "GetModule h0 (mem ''tar.gz'') [] ''hashicorp'' ''consul'' ''aws'' ''1.0.0''
     = Ret emptyModule (Some (Sentinel ErrModuleNotFound)) \<and>
   (\<exists>e. fst (UploadModule h0 (mem ''tar.gz'')
               [(''modules/hashicorp/consul/aws/1.0.0/consul.tar.gz'', ''B'')]
               ''hashicorp'' ''consul'' ''aws'' ''1.0.0'' ''NEW'') = Ret emptyModule (Some e) \<and>
        sentinel_of e = Some ErrModuleAlreadyExists) \<and>
   UploadProviderReleaseFiles h0 (mem ''tar.gz'')
     [(''providers/hashicorp/aws/terraform-provider-aws_1.0.0_linux_amd64.zip'', ''Z'')]
     ''hashicorp'' ''aws'' ''terraform-provider-aws_1.0.0_linux_amd64.zip'' ''NEW''
     = (Some (Sentinel ErrProviderAlreadyExists),
        [(''providers/hashicorp/aws/terraform-provider-aws_1.0.0_linux_amd64.zip'', ''Z'')]) \<and>
   ListProviderVersions h0 (mem ''tar.gz'') [] ''hashicorp'' ''aws''
     = ([], Some (ErrorString ''no provider versions found for hashicorp/aws'')) \<and>
   SigningKeys h0 (mem ''tar.gz'') [] ''hashicorp''
     = (None, Some (ErrorfW ''failed to download signing_keys.json for namespace hashicorp: ''
                      (Wrap (notFound ''GetObject'')
                         ''failed to download: providers/hashicorp/signing-keys.json'')))"
proof -
  let ?s = "mem ''tar.gz''"
  let ?key = "''modules/hashicorp/consul/aws/1.0.0/consul.tar.gz''"
  let ?pkey = "''providers/hashicorp/aws/terraform-provider-aws_1.0.0_linux_amd64.zip''"
  let ?file = "''terraform-provider-aws_1.0.0_linux_amd64.zip''"
  have ne: "''hashicorp'' \<noteq> []" "''consul'' \<noteq> []" "''aws'' \<noteq> []" "''1.0.0'' \<noteq> []"
    "?file \<noteq> []"
    by simp_all
  have head: "HeadObject ?s [] (bucket ?s)
                (modulePath h0 (bucketPrefix ?s) ''hashicorp'' ''consul'' ''aws'' ''1.0.0''
                   (moduleArchiveFormat ?s)) = Some (notFound ''HeadObject'')"
    by (simp add: instance_defs)
  have nf: "as_ResponseError (notFound ''HeadObject'') = Some 404"
    by (simp add: notFound_def)
  have 1: "GetModule h0 ?s [] ''hashicorp'' ''consul'' ''aws'' ''1.0.0''
             = Ret emptyModule (Some (Sentinel ErrModuleNotFound))"
    by (rule typed_and_untyped_outcomes [THEN conjunct1, rule_format, OF head nf])
  have found: "GetModule h0 ?s [(?key, ''B'')] ''hashicorp'' ''consul'' ''aws'' ''1.0.0''
                 = Ret \<lparr>Namespace = ''hashicorp'', Name = ''consul'', Provider = ''aws'',
                        Version = ''1.0.0'', DownloadURL = ''https://registry.s3.test/'' @ ?key\<rparr>
                     None"
    by (simp add: GetModule_cases Let_def instance_defs)
  have 2: "\<exists>e. fst (UploadModule h0 ?s [(?key, ''B'')]
               ''hashicorp'' ''consul'' ''aws'' ''1.0.0'' ''NEW'') = Ret emptyModule (Some e) \<and>
        sentinel_of e = Some ErrModuleAlreadyExists"
    by (rule typed_and_untyped_outcomes
              [THEN conjunct2, THEN conjunct1, rule_format, OF ne(1) ne(2) ne(3) ne(4) found])
  have prefix: "providerStoragePrefix h0 (bucketPrefix ?s) (internalProviderType h0) []
                  ''hashicorp'' ''aws'' = (''providers/hashicorp/aws'', None)"
    by (simp add: instance_defs)
  have phead: "HeadObject ?s [(?pkey, ''Z'')] (bucket ?s)
                 (filepath_Join h0 [''providers/hashicorp/aws'', ?file]) = None"
    by (simp add: instance_defs)
  have 3: "UploadProviderReleaseFiles h0 ?s [(?pkey, ''Z'')] ''hashicorp'' ''aws'' ?file ''NEW''
             = (Some (Sentinel ErrProviderAlreadyExists), [(?pkey, ''Z'')])"
    by (rule typed_and_untyped_outcomes
              [THEN conjunct2, THEN conjunct2, THEN conjunct1, rule_format,
               OF ne(1) ne(3) ne(5) prefix phead])
  have pages: "providerPages h0 (ListObjectsV2 ?s [] (bucket ?s) (''providers/hashicorp/aws'' @ ''/'')) []
                 = ([], None)"
    by (simp add: instance_defs)
  have coll: "Collection_List h0 [] = []"
    by (simp add: instance_defs)
  from typed_and_untyped_outcomes
         [THEN conjunct2, THEN conjunct2, THEN conjunct2, THEN conjunct1, rule_format,
          OF prefix pages coll, THEN conjunct1]
  have 4: "ListProviderVersions h0 ?s [] ''hashicorp'' ''aws''
             = ([], Some (ErrorString ''no provider versions found for hashicorp/aws''))"
    by simp
  have dl: "Download ?s [] (bucket ?s) (signingKeysPath h0 (bucketPrefix ?s) ''hashicorp'')
              = ([], Some (notFound ''GetObject''))"
    by (simp add: instance_defs)
  from typed_and_untyped_outcomes
         [THEN conjunct2, THEN conjunct2, THEN conjunct2, THEN conjunct2, rule_format,
          OF ne(1) dl, THEN conjunct1]
  have 5: "SigningKeys h0 ?s [] ''hashicorp''
     = (None, Some (ErrorfW ''failed to download signing_keys.json for namespace hashicorp: ''
                      (Wrap (notFound ''GetObject'')
                         ''failed to download: providers/hashicorp/signing-keys.json'')))"
    by (simp add: instance_defs)
  from 1 2 3 4 5 show ?thesis by blast
qed

section \<open>Upload, then read\<close>

text \<open>
  C1, at an input: the storage is configured with the archive format \<^verbatim>\<open>zip\<close>, the default
  format is \<^verbatim>\<open>tar.gz\<close>, and the store is empty. \<^verbatim>\<open>UploadModule\<close> writes the object under
  the key that ends in \<^verbatim>\<open>.tar.gz\<close> and returns \<^verbatim>\<open>ErrModuleNotFound\<close>, the result of its own
  second \<^verbatim>\<open>GetModule\<close> call, which looks for the key that ends in \<^verbatim>\<open>.zip\<close>; a
  \<^verbatim>\<open>GetModule\<close> call after it returns \<^verbatim>\<open>ErrModuleNotFound\<close> too.
\<close>

theorem UploadModule_writes_default_format_key:
  "modulePath h0 (bucketPrefix (mem ''zip'')) ''hashicorp'' ''consul'' ''aws'' ''1.0.0''
     (moduleArchiveFormat (mem ''zip'')) = ''modules/hashicorp/consul/aws/1.0.0/consul.zip'' \<and>
   UploadModule h0 (mem ''zip'') [] ''hashicorp'' ''consul'' ''aws'' ''1.0.0'' ''BODY''
     = (Ret emptyModule (Some (Sentinel ErrModuleNotFound)),
        [(''modules/hashicorp/consul/aws/1.0.0/consul.tar.gz'', ''BODY'')]) \<and>
   GetModule h0 (mem ''zip'') [(''modules/hashicorp/consul/aws/1.0.0/consul.tar.gz'', ''BODY'')]
     ''hashicorp'' ''consul'' ''aws'' ''1.0.0''
     = Ret emptyModule (Some (Sentinel ErrModuleNotFound))"
  by (simp add: UploadModule_def GetModule_cases Let_def instance_defs)

text \<open>
  When the configured archive format is the default one, the round trip holds on every
  store that shows an object after its upload: if the coordinates are not empty, the key
  is absent before (\<^verbatim>\<open>HeadObject\<close> answers 404), the upload succeeds, and afterwards
  \<^verbatim>\<open>HeadObject\<close> succeeds and the presign client returns a URL, then \<^verbatim>\<open>UploadModule\<close>
  and a \<^verbatim>\<open>GetModule\<close> call after it return the module with the uploaded coordinates.
\<close>

theorem UploadModule_then_GetModule_default_format:
  "namespace \<noteq> [] \<longrightarrow> name \<noteq> [] \<longrightarrow> provider \<noteq> [] \<longrightarrow> version \<noteq> [] \<longrightarrow>
   moduleArchiveFormat s = DefaultModuleArchiveFormat h \<longrightarrow>
   HeadObject s w (bucket s)
     (modulePath h (bucketPrefix s) namespace name provider version (moduleArchiveFormat s))
     = Some e \<longrightarrow>
   as_ResponseError e = Some 404 \<longrightarrow>
   Upload s w (bucket s)
     (modulePath h (bucketPrefix s) namespace name provider version (moduleArchiveFormat s)) body
     = (None, w') \<longrightarrow>
   HeadObject s w' (bucket s)
     (modulePath h (bucketPrefix s) namespace name provider version (moduleArchiveFormat s))
     = None \<longrightarrow>
   PresignGetObject s w' (bucket s)
     (modulePath h (bucketPrefix s) namespace name provider version (moduleArchiveFormat s))
     (signedURLExpiry s) = (Some url, None) \<longrightarrow>
   UploadModule h s w namespace name provider version body
     = (Ret \<lparr>Namespace = namespace, Name = name, Provider = provider, Version = version,
             DownloadURL = url\<rparr> None, w') \<and>
   GetModule h s w' namespace name provider version
     = Ret \<lparr>Namespace = namespace, Name = name, Provider = provider, Version = version,
            DownloadURL = url\<rparr> None"
  by (simp add: UploadModule_def GetModule_cases Let_def)

theorem UploadModule_then_GetModule_default_format_witness:
  "UploadModule h0 (mem ''tar.gz'') [] ''hashicorp'' ''consul'' ''aws'' ''1.0.0'' ''BODY''
     = (Ret \<lparr>Namespace = ''hashicorp'', Name = ''consul'', Provider = ''aws'',
             Version = ''1.0.0'',
             DownloadURL = ''https://registry.s3.test/modules/hashicorp/consul/aws/1.0.0/consul.tar.gz''\<rparr>
          None,
        [(''modules/hashicorp/consul/aws/1.0.0/consul.tar.gz'', ''BODY'')]) \<and>
   GetModule h0 (mem ''tar.gz'') [(''modules/hashicorp/consul/aws/1.0.0/consul.tar.gz'', ''BODY'')]
     ''hashicorp'' ''consul'' ''aws'' ''1.0.0''
     = Ret \<lparr>Namespace = ''hashicorp'', Name = ''consul'', Provider = ''aws'',
            Version = ''1.0.0'',
            DownloadURL = ''https://registry.s3.test/modules/hashicorp/consul/aws/1.0.0/consul.tar.gz''\<rparr>
         None"
proof -
  let ?s = "mem ''tar.gz''"
  let ?key = "''modules/hashicorp/consul/aws/1.0.0/consul.tar.gz''"
  let ?w' = "[(?key, ''BODY'')]"
  let ?path = "modulePath h0 (bucketPrefix ?s) ''hashicorp'' ''consul'' ''aws'' ''1.0.0''
                 (moduleArchiveFormat ?s)"
  have ne: "''hashicorp'' \<noteq> []" "''consul'' \<noteq> []" "''aws'' \<noteq> []" "''1.0.0'' \<noteq> []"
    by simp_all
  have fmt: "moduleArchiveFormat ?s = DefaultModuleArchiveFormat h0"
    by (simp add: instance_defs)
  have absent: "HeadObject ?s [] (bucket ?s) ?path = Some (notFound ''HeadObject'')"
    by (simp add: instance_defs)
  have nf: "as_ResponseError (notFound ''HeadObject'') = Some 404"
    by (simp add: notFound_def)
  have up: "Upload ?s [] (bucket ?s) ?path ''BODY'' = (None, ?w')"
    by (simp add: instance_defs)
  have present: "HeadObject ?s ?w' (bucket ?s) ?path = None"
    by (simp add: instance_defs)
  have url: "PresignGetObject ?s ?w' (bucket ?s) ?path (signedURLExpiry ?s)
               = (Some (''https://registry.s3.test/'' @ ?key), None)"
    by (simp add: instance_defs)
  from UploadModule_then_GetModule_default_format
         [rule_format, OF ne(1) ne(2) ne(3) ne(4) fmt absent nf up present url]
  show ?thesis by simp
qed

end
